theory Spec2Isabelle
  imports Main
begin

section \<open>Claim objects\<close>

text \<open>
  JSON values as the claim objects carry them. Instants (\<open>Date\<close> objects, compared through
  their millisecond value) are integers.
\<close>

datatype json =
    JNull
  | JBool bool
  | JNumber int
  | JString string
  | JArray "json list"
  | JObject "(string \<times> json) list"

type_synonym date = int

text \<open>\<open>metadata\<close>: metadata type \<open>\<rightarrow>\<close> object. The empty object \<open>{}\<close> is \<open>[]\<close>.\<close>

type_synonym metadata_t = "(string \<times> json) list"

text \<open>
  \<open>metadata_policy\<close>: \<open>z.record(z.record(metadataPolicySchema.optional()))\<close>, metadata type
  \<open>\<rightarrow>\<close> attribute \<open>\<rightarrow>\<close> optional operator object.
\<close>

type_synonym metadata_policy_t = "(string \<times> (string \<times> (string \<times> json) list option) list) list"

text \<open>
  A JSON web key. \<open>jsonWebKeySetSchema\<close> is imported from \<open>../jsonWeb\<close>; only the \<open>kid\<close>
  member is read here. Whether the imported schema lets a parsed key be without \<open>kid\<close> is
  not visible in this module, so the type admits both: \<open>None\<close> is the \<open>undefined\<close> the
  callback would read from such a key. The other members are kept as an association list.
\<close>

record json_web_key =
  kid :: "string option"
  members :: "(string \<times> json) list"

record json_web_key_set =
  keys :: "json_web_key list"

text \<open>The output type of \<open>entityStatementClaimsSchema\<close>: optional members are options.\<close>

record entity_statement_claims =
  iss :: string
  sub :: string
  iat :: date
  exp :: date
  jwks :: json_web_key_set
  authority_hints :: "string list option"
  metadata :: "metadata_t option"
  metadata_policy :: "metadata_policy_t option"
  constraints :: "json option"
  crit :: "string list option"
  metadata_policy_crit :: "string list option"
  trust_marks :: "json list option"
  trust_mark_issuers :: "json option"
  trust_mark_owners :: "json option"
  source_endpoint :: "string option"

section \<open>Entity statement schema: the duplicate key id refinement\<close>

text \<open>
  \<open>Array.prototype.indexOf\<close>: the first index whose element is strictly equal to the
  argument, \<open>-1\<close> when there is none. On \<open>string | undefined\<close> strict equality is equality
  of options: \<open>undefined === undefined\<close>.
\<close>

fun indexOf_from :: "'a list \<Rightarrow> 'a \<Rightarrow> int \<Rightarrow> int" where
  "indexOf_from [] x i = - 1"
| "indexOf_from (y # ys) x i = (if y = x then i else indexOf_from ys x (i + 1))"

definition indexOf :: "'a list \<Rightarrow> 'a \<Rightarrow> int" where
  "indexOf xs x = indexOf_from xs x 0"

text \<open>\<open>Array.prototype.some\<close> with the two-argument callback \<open>(element, index)\<close>.\<close>

fun some_from :: "('a \<Rightarrow> int \<Rightarrow> bool) \<Rightarrow> 'a list \<Rightarrow> int \<Rightarrow> bool" where
  "some_from p [] i = False"
| "some_from p (x # xs) i = (if p x i then True else some_from p xs (i + 1))"

definition some_indexed :: "('a \<Rightarrow> int \<Rightarrow> bool) \<Rightarrow> 'a list \<Rightarrow> bool" where
  "some_indexed p xs = some_from p xs 0"

record issue =
  code :: string
  message :: string
  path :: "string list"

definition duplicate_key_ids_issue :: issue where
  "duplicate_key_ids_issue =
     \<lparr>code = ''custom'', message = ''keys include duplicate key ids'', path = [''jwks'', ''keys'']\<rparr>"

text \<open>
  The callback of \<open>.superRefine\<close>, returning the issues it adds to \<open>ctx\<close>:
  \<^verbatim>\<open>
  const keyIds = data.jwks.keys.map((key) => key.kid)
  if (keyIds.some((key, i) => keyIds.indexOf(key) !== i)) ctx.addIssue({...})
  \<close>
\<close>

definition superRefine :: "entity_statement_claims \<Rightarrow> issue list" where
  "superRefine data =
     (let keyIds = map kid (keys (jwks data))
      in if some_indexed (\<lambda>key i. indexOf keyIds key \<noteq> i) keyIds
         then [duplicate_key_ids_issue]
         else [])"

text \<open>
  Validation by \<open>entityStatementClaimsSchema\<close>. The member schemas of the \<open>z.object\<close> are
  imported from other modules, so the object schema is the parameter \<open>objectSchema\<close>: it
  either fails with its issues or yields the parsed claims. The refinement runs on the parsed
  claims, and the input is accepted when no issue was added.
\<close>

definition entityStatementClaimsSchema ::
  "('i \<Rightarrow> issue list + entity_statement_claims) \<Rightarrow> 'i \<Rightarrow> issue list + entity_statement_claims"
where
  "entityStatementClaimsSchema objectSchema input =
     (case objectSchema input of
        Inl issues \<Rightarrow> Inl issues
      | Inr data \<Rightarrow>
          (case superRefine data of
             [] \<Rightarrow> Inr data
           | issues \<Rightarrow> Inl issues))"

section \<open>Trust chain resolution\<close>

subsection \<open>Data\<close>

text \<open>
  Modelled from the spec: \<open>EntityConfigurationClaims\<close> is imported from
  \<open>../entityConfiguration\<close>. The data model gives a validity window, a key set, optional
  metadata, optional authority hints and optional trust marks; the resolver reads only the
  metadata.
\<close>

record entity_configuration_claims =
  ec_iss :: string
  ec_sub :: string
  ec_iat :: date
  ec_exp :: date
  ec_jwks :: json_web_key_set
  ec_authority_hints :: "string list option"
  ec_metadata :: "metadata_t option"
  ec_trust_marks :: "json list option"

record 'v options =
  verifyJwtCallback :: 'v
  entityId :: string
  trustAnchorEntityIds :: "string list"

record trust_chain =
  valid :: bool
  chain :: "entity_statement_claims list"
  rawLeafEntityConfiguration :: entity_configuration_claims
  resolvedLeafMetadata :: "metadata_t option"
  trustAnchorEntityConfiguration :: entity_configuration_claims

subsection \<open>Errors\<close>

text \<open>
  Modelled from the spec: the error classes and \<open>PolicyErrorStage\<close> are imported from
  \<open>../error\<close> and \<open>./policies\<close>. The error taxonomy names an operator-merge failure, an
  unsupported-critical-policy failure and a policy-validation failure; the resolver itself
  constructs an \<open>OpenIdFederationError\<close> of stage \<open>Validation\<close>. \<open>TypeError\<close> is what
  reading a property of \<open>undefined\<close> throws, \<open>Error\<close> stands for any other thrown value.
\<close>

datatype PolicyErrorStage = Validation | MetadataPolicyCrit

datatype error =
    PolicyOperatorMergeError string
  | PolicyValidationError string
  | OpenIdFederationError PolicyErrorStage string
  | TypeError string
  | Error string

fun instanceof_PolicyOperatorMergeError :: "error \<Rightarrow> bool" where
  "instanceof_PolicyOperatorMergeError (PolicyOperatorMergeError m) = True"
| "instanceof_PolicyOperatorMergeError e = False"

fun instanceof_PolicyValidationError :: "error \<Rightarrow> bool" where
  "instanceof_PolicyValidationError (PolicyValidationError m) = True"
| "instanceof_PolicyValidationError e = False"

fun isMetadataPolicyCritError :: "error \<Rightarrow> bool" where
  "isMetadataPolicyCritError (OpenIdFederationError MetadataPolicyCrit m) = True"
| "isMetadataPolicyCritError e = False"

text \<open>
  \<open>tryCatch\<close> (imported from \<open>../utils/tryCatch\<close>) runs a thunk and turns a thrown value
  into \<open>{ success: false, error }\<close>, a returned one into \<open>{ success: true, value }\<close>. The
  thunk's run is a sum, \<open>Inl\<close> the thrown value.
\<close>

datatype 'a try_result = Success 'a | Failure error

fun tryCatch :: "error + 'a \<Rightarrow> 'a try_result" where
  "tryCatch (Inl e) = Failure e"
| "tryCatch (Inr v) = Success v"

subsection \<open>Array reads\<close>

text \<open>\<open>xs[i]\<close>: \<open>undefined\<close> (\<open>None\<close>) outside the array, also at \<open>xs[-1]\<close>.\<close>

definition at_index :: "'a list \<Rightarrow> int \<Rightarrow> 'a option" where
  "at_index xs i = (if 0 \<le> i \<and> i < int (length xs) then Some (xs ! nat i) else None)"

text \<open>\<open>xs.slice(0, -1)\<close>: all elements but the last; the empty array stays empty.\<close>

definition slice_0_minus_1 :: "'a list \<Rightarrow> 'a list" where
  "slice_0_minus_1 xs = take (length xs - 1) xs"

text \<open>\<open>m ?? {}\<close> on optional metadata.\<close>

fun orEmpty :: "metadata_t option \<Rightarrow> metadata_t" where
  "orEmpty None = []"
| "orEmpty (Some m) = m"

subsection \<open>Collaborators\<close>

text \<open>
  The functions the resolver imports from other modules, as parameters. The two fetch
  functions are awaited: they run in a world \<open>'w\<close> (network, clock), may change it, and
  their promise may reject (\<open>Inl\<close>). \<open>currentTime\<close> is the clock \<open>new Date()\<close> reads.
  \<open>combineMetadataPolicies\<close> and \<open>applyMetadataPolicyToMetadata\<close> may throw (\<open>Inl\<close>) and
  yield \<open>mergedPolicy\<close> and \<open>resolvedLeafMetadata\<close>. \<open>mergeMetadata\<close> is called outside any
  \<open>tryCatch\<close>; the spec requires it to be total on two metadata objects.
\<close>

record ('w, 'v) collaborators =
  currentTime :: "'w \<Rightarrow> date"
  fetchEntityConfigurationChains ::
    "string \<Rightarrow> string list \<Rightarrow> 'v \<Rightarrow> 'w \<Rightarrow> (error + entity_configuration_claims list list) \<times> 'w"
  fetchEntityStatementChain ::
    "entity_configuration_claims list \<Rightarrow> 'v \<Rightarrow> 'w \<Rightarrow> (error + entity_statement_claims list) \<times> 'w"
  combineMetadataPolicies :: "entity_statement_claims list \<Rightarrow> error + metadata_policy_t"
  applyMetadataPolicyToMetadata :: "metadata_t \<Rightarrow> metadata_policy_t \<Rightarrow> error + metadata_t option"
  mergeMetadata :: "metadata_t \<Rightarrow> metadata_t \<Rightarrow> metadata_t"

subsection \<open>One candidate\<close>

text \<open>What one iteration of the \<open>for\<close> loop does after its \<open>await\<close>.\<close>

datatype step = Throw error | Continue | Push trust_chain

definition expired :: "date \<Rightarrow> entity_statement_claims \<Rightarrow> bool" where
  "expired now statement = (exp statement < now)"

text \<open>
  Lines 68 to 154 of \<open>resolveTrustChains\<close>, for the configuration chain of the candidate
  and the statement chain fetched for it. \<open>leafEntityConfiguration\<close> is
  \<open>entityConfigurationChain[0]\<close>; reading its \<open>metadata\<close> when it is \<open>undefined\<close> throws a
  \<open>TypeError\<close>.
\<close>

definition resolveCandidate ::
  "('w, 'v) collaborators \<Rightarrow> date \<Rightarrow> entity_configuration_claims list \<Rightarrow>
   entity_statement_claims list \<Rightarrow> step"
where
  "resolveCandidate env now entityConfigurationChain entityStatementChain =
     (if length entityStatementChain = 0 then Continue
      else if list_ex (expired now) entityStatementChain then Continue
      else
        (let leafEntityConfiguration = at_index entityConfigurationChain 0 in
         if length entityStatementChain = 1 then
           (case leafEntityConfiguration of
              None \<Rightarrow> Throw (TypeError ''Cannot read properties of undefined (reading metadata)'')
            | Some leaf \<Rightarrow>
                Push \<lparr>valid = True,
                      chain = entityStatementChain,
                      rawLeafEntityConfiguration = leaf,
                      resolvedLeafMetadata = ec_metadata leaf,
                      trustAnchorEntityConfiguration = leaf\<rparr>)
         else
           (let statementsWithoutLeaf = slice_0_minus_1 entityStatementChain in
            (case tryCatch (combineMetadataPolicies env statementsWithoutLeaf) of
               Failure err \<Rightarrow>
                 (if instanceof_PolicyOperatorMergeError err then Continue
                  else if isMetadataPolicyCritError err then Continue
                  else Continue)
             | Success mergedPolicy \<Rightarrow>
                 (let superiorEntityStatement = at_index statementsWithoutLeaf 0 in
                  (case leafEntityConfiguration of
                     None \<Rightarrow>
                       Throw (TypeError ''Cannot read properties of undefined (reading metadata)'')
                   | Some leaf \<Rightarrow>
                       (let mergedLeafMetadata =
                              mergeMetadata env
                                (orEmpty (ec_metadata leaf))
                                (orEmpty (Option.bind superiorEntityStatement metadata)) in
                        (case tryCatch
                                (applyMetadataPolicyToMetadata env mergedLeafMetadata mergedPolicy) of
                           Failure err \<Rightarrow>
                             (if instanceof_PolicyValidationError err then Continue else Continue)
                         | Success resolved \<Rightarrow>
                             (case at_index entityConfigurationChain
                                     (int (length entityConfigurationChain) - 1) of
                                None \<Rightarrow>
                                  Throw (OpenIdFederationError Validation
                                           ''No trust anchor entity configuration found'')
                              | Some trustAnchor \<Rightarrow>
                                  Push \<lparr>valid = True,
                                        chain = entityStatementChain,
                                        rawLeafEntityConfiguration = leaf,
                                        resolvedLeafMetadata = resolved,
                                        trustAnchorEntityConfiguration = trustAnchor\<rparr>)))))))))"

subsection \<open>The loop and the call\<close>

text \<open>
  The \<open>for ... of\<close> loop over the candidate configuration chains: \<open>trustChains\<close> is the
  array built so far, \<open>w\<close> the world before the iteration's \<open>await\<close>. A rejected fetch and a
  \<open>throw\<close> end the call with the error.
\<close>

fun forCandidates ::
  "('w, 'v) collaborators \<Rightarrow> 'v \<Rightarrow> date \<Rightarrow> entity_configuration_claims list list \<Rightarrow>
   trust_chain list \<Rightarrow> 'w \<Rightarrow> (error + trust_chain list) \<times> 'w"
where
  "forCandidates env verify now [] trustChains w = (Inr trustChains, w)"
| "forCandidates env verify now (entityConfigurationChain # rest) trustChains w =
     (case fetchEntityStatementChain env entityConfigurationChain verify w of
        (Inl e, w') \<Rightarrow> (Inl e, w')
      | (Inr entityStatementChain, w') \<Rightarrow>
          (case resolveCandidate env now entityConfigurationChain entityStatementChain of
             Throw e \<Rightarrow> (Inl e, w')
           | Continue \<Rightarrow> forCandidates env verify now rest trustChains w'
           | Push trustChain \<Rightarrow>
               forCandidates env verify now rest (trustChains @ [trustChain]) w'))"

text \<open>
  \<open>resolveTrustChains\<close>: \<open>now\<close> is read from the clock first, then the candidate
  configuration chains are fetched, then the loop runs from the empty array.
\<close>

definition resolveTrustChains ::
  "('w, 'v) collaborators \<Rightarrow> 'v options \<Rightarrow> 'w \<Rightarrow> (error + trust_chain list) \<times> 'w"
where
  "resolveTrustChains env opts w =
     (let now = currentTime env w in
      case fetchEntityConfigurationChains env
             (entityId opts) (trustAnchorEntityIds opts) (verifyJwtCallback opts) w of
        (Inl e, w') \<Rightarrow> (Inl e, w')
      | (Inr entityConfigurationChains, w') \<Rightarrow>
          forCandidates env (verifyJwtCallback opts) now entityConfigurationChains [] w')"

subsection \<open>The policy combiner's criticality rule\<close>

text \<open>
  Modelled from the spec: \<open>combineMetadataPolicies\<close> is imported from \<open>./policies\<close>. Its
  criticality rule: if a statement it is given declares a \<open>metadata_policy_crit\<close> entry
  naming an operator the combiner does not recognize, combination fails with the critical
  policy unsupported condition. The recognized operators and the folding of the policies
  (whose operator table the spec leaves open) are the parameters \<open>supportedOperators\<close> and
  \<open>foldPolicies\<close>.
\<close>

fun critOperators :: "entity_statement_claims \<Rightarrow> string list" where
  "critOperators statement =
     (case metadata_policy_crit statement of None \<Rightarrow> [] | Some ops \<Rightarrow> ops)"

definition namesUnsupportedCritical :: "string list \<Rightarrow> entity_statement_claims \<Rightarrow> bool" where
  "namesUnsupportedCritical supportedOperators statement =
     list_ex (\<lambda>operator. operator \<notin> set supportedOperators) (critOperators statement)"

definition combineMetadataPolicies_spec ::
  "string list \<Rightarrow> (entity_statement_claims list \<Rightarrow> error + metadata_policy_t) \<Rightarrow>
   entity_statement_claims list \<Rightarrow> error + metadata_policy_t"
where
  "combineMetadataPolicies_spec supportedOperators foldPolicies statements =
     (if list_ex (namesUnsupportedCritical supportedOperators) statements
      then Inl (OpenIdFederationError MetadataPolicyCrit ''critical policy unsupported'')
      else foldPolicies statements)"

section \<open>Example data\<close>

definition ex_key :: "string option \<Rightarrow> json_web_key" where
  "ex_key k = \<lparr>kid = k, members = [(''kty'', JString ''EC'')]\<rparr>"

definition ex_statement ::
  "string \<Rightarrow> string \<Rightarrow> date \<Rightarrow> string option list \<Rightarrow> metadata_t option \<Rightarrow> string list option \<Rightarrow>
   entity_statement_claims"
where
  "ex_statement issuer subject expiry kids meta policyCrit =
     \<lparr>iss = issuer, sub = subject, iat = 0, exp = expiry,
      jwks = \<lparr>keys = map ex_key kids\<rparr>,
      authority_hints = None, metadata = meta, metadata_policy = None,
      constraints = None, crit = None, metadata_policy_crit = policyCrit,
      trust_marks = None, trust_mark_issuers = None, trust_mark_owners = None,
      source_endpoint = None\<rparr>"

definition ex_configuration :: "string \<Rightarrow> metadata_t option \<Rightarrow> entity_configuration_claims" where
  "ex_configuration entity meta =
     \<lparr>ec_iss = entity, ec_sub = entity, ec_iat = 0, ec_exp = 9000,
      ec_jwks = \<lparr>keys = [ex_key (Some ''k1'')]\<rparr>,
      ec_authority_hints = None, ec_metadata = meta, ec_trust_marks = None\<rparr>"

definition ex_leaf :: entity_configuration_claims where
  "ex_leaf =
     ex_configuration ''https://leaf''
       (Some [(''openid_provider'', JObject [(''organization_name'', JString ''A'')])])"

definition ex_anchor :: entity_configuration_claims where
  "ex_anchor = ex_configuration ''https://ta'' None"

text \<open>The anchor's statement about the leaf, and the anchor's self-issued statement.\<close>

definition ex_subordinate_statement :: "date \<Rightarrow> string list option \<Rightarrow> entity_statement_claims" where
  "ex_subordinate_statement expiry policyCrit =
     ex_statement ''https://ta'' ''https://leaf'' expiry [Some ''k1'']
       (Some [(''federation_entity'', JObject [(''contacts'', JString ''ops'')])]) policyCrit"

definition ex_anchor_statement :: "date \<Rightarrow> string list option \<Rightarrow> entity_statement_claims" where
  "ex_anchor_statement expiry policyCrit =
     ex_statement ''https://ta'' ''https://ta'' expiry [Some ''k1''] None policyCrit"

definition ex_options :: "unit options" where
  "ex_options =
     \<lparr>verifyJwtCallback = (), entityId = ''https://leaf'', trustAnchorEntityIds = [''https://ta'']\<rparr>"

definition ex_operators :: "string list" where
  "ex_operators = [''value'', ''add'', ''default'', ''one_of'', ''subset_of'', ''superset_of'', ''essential'']"

text \<open>
  An environment whose world is a tick counter: the clock shows 1000 ms per tick and every
  fetch takes one tick. Discovery returns \<open>configurationChains\<close>; the statement fetch
  rejects when it is given no configurations and returns \<open>statements\<close> otherwise; merging
  appends the superior's metadata to the subject's.
\<close>

definition ex_env ::
  "entity_configuration_claims list list \<Rightarrow> entity_statement_claims list \<Rightarrow>
   (entity_statement_claims list \<Rightarrow> error + metadata_policy_t) \<Rightarrow>
   (metadata_t \<Rightarrow> metadata_policy_t \<Rightarrow> error + metadata_t option) \<Rightarrow> (nat, unit) collaborators"
where
  "ex_env configurationChains statements combiner applicator =
     \<lparr>currentTime = (\<lambda>w. 1000 * int w),
      fetchEntityConfigurationChains = (\<lambda>leaf anchors verify w. (Inr configurationChains, Suc w)),
      fetchEntityStatementChain =
        (\<lambda>entityConfigurations verify w.
           if entityConfigurations = []
           then (Inl (Error ''no entity configurations''), Suc w)
           else (Inr statements, Suc w)),
      combineMetadataPolicies = combiner,
      applyMetadataPolicyToMetadata = applicator,
      mergeMetadata = (\<lambda>subject superior. subject @ superior)\<rparr>"

text \<open>
  The same environment, but its statement fetch fulfils only for a configuration chain of
  one element and rejects for any other.
\<close>

definition ex_env_failing_fetch ::
  "entity_configuration_claims list list \<Rightarrow> (nat, unit) collaborators"
where
  "ex_env_failing_fetch configurationChains =
     \<lparr>currentTime = (\<lambda>w. 1000 * int w),
      fetchEntityConfigurationChains = (\<lambda>leaf anchors verify w. (Inr configurationChains, Suc w)),
      fetchEntityStatementChain =
        (\<lambda>entityConfigurations verify w.
           if length entityConfigurations = 1
           then (Inr [ex_anchor_statement 5000 None], Suc w)
           else (Inl (Error ''fetch failed''), Suc w)),
      combineMetadataPolicies = (\<lambda>statements. Inr []),
      applyMetadataPolicyToMetadata = (\<lambda>leafMetadata policy. Inr (Some leafMetadata)),
      mergeMetadata = (\<lambda>subject superior. subject @ superior)\<rparr>"

text \<open>
  A policy that fixes the organization name, a combiner that returns it for exactly one
  statement, and an applicator that sets the name under that policy and throws under any
  other.
\<close>

definition ex_policy :: metadata_policy_t where
  "ex_policy =
     [(''openid_provider'', [(''organization_name'', Some [(''value'', JString ''Org'')])])]"

definition ex_combine_one :: "entity_statement_claims list \<Rightarrow> error + metadata_policy_t" where
  "ex_combine_one statements =
     (if length statements = 1 then Inr ex_policy else Inl (Error ''not one statement''))"

definition ex_apply_fixed_name :: "metadata_t \<Rightarrow> metadata_policy_t \<Rightarrow> error + metadata_t option" where
  "ex_apply_fixed_name leafMetadata policy =
     (if policy = ex_policy
      then Inr (Some [(''openid_provider'', JObject [(''organization_name'', JString ''Org'')])])
      else Inl (PolicyValidationError ''other policy''))"

definition ex_combine :: "entity_statement_claims list \<Rightarrow> error + metadata_policy_t" where
  "ex_combine = combineMetadataPolicies_spec ex_operators (\<lambda>statements. Inr [])"

definition ex_apply :: "metadata_t \<Rightarrow> metadata_policy_t \<Rightarrow> error + metadata_t option" where
  "ex_apply leafMetadata policyMetadata = Inr (Some leafMetadata)"

lemmas ex_defs =
  ex_key_def ex_statement_def ex_configuration_def ex_leaf_def ex_anchor_def
  ex_subordinate_statement_def ex_anchor_statement_def ex_options_def ex_operators_def
  ex_env_def ex_combine_def ex_apply_def ex_env_failing_fetch_def

lemmas resolve_defs =
  resolveTrustChains_def resolveCandidate_def expired_def at_index_def slice_0_minus_1_def
  combineMetadataPolicies_spec_def namesUnsupportedCritical_def Let_def

section \<open>Facts about the duplicate check\<close>

lemma indexOf_from_takeWhile:
  "indexOf_from xs x k =
     (if x \<in> set xs then k + int (length (takeWhile (\<lambda>y. y \<noteq> x) xs)) else - 1)"
  by (induction xs arbitrary: k) auto

lemma some_from_iff:
  "some_from p ys i \<longleftrightarrow> (\<exists>j<length ys. p (ys ! j) (i + int j))"
proof (induction ys arbitrary: i)
  case Nil
  show ?case by simp
next
  case (Cons y ys)
  have "(\<exists>j<length (y # ys). p ((y # ys) ! j) (i + int j)) \<longleftrightarrow>
        p y i \<or> (\<exists>j<length ys. p (ys ! j) (i + 1 + int j))"
    by (auto simp: less_Suc_eq_0_disj add.assoc)
  then show ?case using Cons.IH [of "i + 1"] by auto
qed

lemma takeWhile_first_le:
  assumes "j < length xs"
  shows "length (takeWhile (\<lambda>y. y \<noteq> xs ! j) xs) \<le> j"
proof (rule ccontr)
  let ?t = "takeWhile (\<lambda>y. y \<noteq> xs ! j) xs"
  assume "\<not> length ?t \<le> j"
  then have lt: "j < length ?t" by simp
  then have "?t ! j \<in> set ?t" by simp
  then have "?t ! j \<noteq> xs ! j" by (auto dest: set_takeWhileD)
  moreover have "?t ! j = xs ! j" using lt by (rule takeWhile_nth)
  ultimately show False by simp
qed

lemma indexOf_nth_distinct:
  assumes "distinct xs" "j < length xs"
  shows "indexOf xs (xs ! j) = int j"
proof -
  let ?k = "length (takeWhile (\<lambda>y. y \<noteq> xs ! j) xs)"
  have le: "?k \<le> j" using assms(2) by (rule takeWhile_first_le)
  then have klt: "?k < length xs" using assms(2) by simp
  then have "\<not> (xs ! ?k \<noteq> xs ! j)" by (rule nth_length_takeWhile)
  then have "?k = j" using assms klt by (simp add: nth_eq_iff_index_eq)
  then show ?thesis using assms(2) by (simp add: indexOf_def indexOf_from_takeWhile)
qed

lemma duplicate_check_iff:
  "some_indexed (\<lambda>key i. indexOf xs key \<noteq> i) xs \<longleftrightarrow> \<not> distinct xs"
proof
  assume "some_indexed (\<lambda>key i. indexOf xs key \<noteq> i) xs"
  then obtain j where "j < length xs" "indexOf xs (xs ! j) \<noteq> int j"
    by (auto simp: some_indexed_def some_from_iff)
  then show "\<not> distinct xs" using indexOf_nth_distinct by blast
next
  assume "\<not> distinct xs"
  then obtain i j where ij: "i < length xs" "j < length xs" "i \<noteq> j" "xs ! i = xs ! j"
    by (auto simp: distinct_conv_nth)
  have "indexOf xs (xs ! i) \<noteq> int i \<or> indexOf xs (xs ! j) \<noteq> int j"
    using ij by auto
  then have "\<exists>k<length xs. indexOf xs (xs ! k) \<noteq> 0 + int k"
    using ij(1,2) by auto
  then show "some_indexed (\<lambda>key i. indexOf xs key \<noteq> i) xs"
    unfolding some_indexed_def some_from_iff .
qed

lemma superRefine_Nil_iff:
  "superRefine data = [] \<longleftrightarrow> distinct (map kid (keys (jwks data)))"
  by (simp add: superRefine_def Let_def duplicate_check_iff)

lemma superRefine_duplicate:
  "\<not> distinct (map kid (keys (jwks data))) \<Longrightarrow> superRefine data = [duplicate_key_ids_issue]"
  by (simp add: superRefine_def Let_def duplicate_check_iff)

section \<open>Facts about one candidate\<close>

lemma slice_0_minus_1_butlast: "slice_0_minus_1 xs = butlast xs"
  by (simp add: slice_0_minus_1_def butlast_conv_take)

lemma at_index_0_Cons: "at_index (x # xs) 0 = Some x"
  by (simp add: at_index_def)

lemma at_index_Nil: "at_index [] i = None"
  by (simp add: at_index_def)

lemma at_index_last: "xs \<noteq> [] \<Longrightarrow> at_index xs (int (length xs) - 1) = Some (last xs)"
  by (cases xs rule: rev_cases) (auto simp: at_index_def nth_append nat_diff_distrib')

lemma list_ex_expired_iff:
  "list_ex (expired now) sts \<longleftrightarrow> (\<exists>i<length sts. exp (sts ! i) < now)"
  by (force simp: list_ex_iff expired_def in_set_conv_nth)

lemma resolveCandidate_empty: "resolveCandidate env now cfgs [] = Continue"
  by (simp add: resolveCandidate_def)

lemma resolveCandidate_expired:
  "list_ex (expired now) sts \<Longrightarrow> resolveCandidate env now cfgs sts = Continue"
  by (simp add: resolveCandidate_def)

lemma resolveCandidate_single:
  "\<not> expired now s \<Longrightarrow>
   resolveCandidate env now cfgs [s] =
     (case at_index cfgs 0 of
        None \<Rightarrow> Throw (TypeError ''Cannot read properties of undefined (reading metadata)'')
      | Some leaf \<Rightarrow>
          Push \<lparr>valid = True, chain = [s], rawLeafEntityConfiguration = leaf,
                resolvedLeafMetadata = ec_metadata leaf,
                trustAnchorEntityConfiguration = leaf\<rparr>)"
  by (simp add: resolveCandidate_def)

lemma resolveCandidate_combine_failed:
  "2 \<le> length sts \<Longrightarrow> combineMetadataPolicies env (butlast sts) = Inl e \<Longrightarrow>
   resolveCandidate env now cfgs sts = Continue"
  by (auto simp: resolveCandidate_def Let_def slice_0_minus_1_butlast)

lemma resolveCandidate_general:
  assumes "2 \<le> length sts" "\<not> list_ex (expired now) sts"
    and "combineMetadataPolicies env (butlast sts) = Inr mergedPolicy"
  shows "resolveCandidate env now cfgs sts =
     (case at_index cfgs 0 of
        None \<Rightarrow> Throw (TypeError ''Cannot read properties of undefined (reading metadata)'')
      | Some leaf \<Rightarrow>
          (case applyMetadataPolicyToMetadata env
                  (mergeMetadata env (orEmpty (ec_metadata leaf)) (orEmpty (metadata (hd sts))))
                  mergedPolicy of
             Inl e \<Rightarrow> Continue
           | Inr resolved \<Rightarrow>
               Push \<lparr>valid = True, chain = sts, rawLeafEntityConfiguration = leaf,
                     resolvedLeafMetadata = resolved,
                     trustAnchorEntityConfiguration = last cfgs\<rparr>))"
proof -
  obtain s1 s2 more where sts: "sts = s1 # s2 # more"
    using assms(1) by (cases sts; cases "tl sts") auto
  have sup: "at_index (butlast sts) 0 = Some (hd sts)"
    by (simp add: sts at_index_def)
  show ?thesis
  proof (cases cfgs)
    case Nil
    then show ?thesis using assms sup
      by (simp add: resolveCandidate_def Let_def slice_0_minus_1_butlast at_index_Nil sts)
  next
    case (Cons leaf others)
    then have "at_index cfgs (int (length cfgs) - 1) = Some (last cfgs)"
      by (intro at_index_last) simp
    then show ?thesis using assms sup Cons
      by (cases "applyMetadataPolicyToMetadata env
                  (mergeMetadata env (orEmpty (ec_metadata leaf)) (orEmpty (metadata (hd sts))))
                  mergedPolicy")
         (simp_all add: resolveCandidate_def Let_def slice_0_minus_1_butlast at_index_0_Cons sts)
  qed
qed

lemma resolveCandidate_Push:
  assumes "resolveCandidate env now cfgs sts = Push tc"
  shows "chain tc = sts \<and> \<not> list_ex (expired now) sts \<and> sts \<noteq> [] \<and>
         at_index cfgs 0 = Some (rawLeafEntityConfiguration tc)"
  using assms
  by (auto simp: resolveCandidate_def Let_def
      split: if_splits option.splits try_result.splits)

lemma resolveCandidate_Throw:
  assumes "resolveCandidate env now cfgs sts = Throw e"
  shows "cfgs = [] \<and> e = TypeError ''Cannot read properties of undefined (reading metadata)''"
proof (cases cfgs)
  case Nil
  then show ?thesis using assms
    by (auto simp: resolveCandidate_def Let_def at_index_Nil
        split: if_splits option.splits try_result.splits)
next
  case (Cons leaf others)
  have "cfgs \<noteq> []" using Cons by simp
  then have "at_index cfgs (int (length cfgs) - 1) = Some (last cfgs)" by (rule at_index_last)
  moreover have "at_index cfgs 0 = Some leaf" using Cons by (simp add: at_index_0_Cons)
  ultimately have "at_index cfgs 0 = Some leaf"
      "at_index cfgs (int (length cfgs) - 1) = Some (last cfgs)" by simp_all
  then show ?thesis using assms
    by (auto simp: resolveCandidate_def Let_def
        split: if_splits try_result.splits)
qed

section \<open>Facts about the loop\<close>

lemma resolveCandidate_clock:
  "resolveCandidate (env\<lparr>currentTime := t\<rparr>) now cfgs sts = resolveCandidate env now cfgs sts"
  by (simp add: resolveCandidate_def Let_def cong: option.case_cong try_result.case_cong)

lemma forCandidates_clock:
  "forCandidates (env\<lparr>currentTime := t\<rparr>) verify now cs acc w = forCandidates env verify now cs acc w"
  by (induction cs arbitrary: acc w)
     (auto simp: resolveCandidate_clock split: prod.splits sum.splits step.splits)

lemma forCandidates_unexpired:
  assumes "forCandidates env verify now cs acc w = (Inr tcs, w')"
    and "\<forall>tc\<in>set acc. \<not> list_ex (expired now) (chain tc)"
  shows "\<forall>tc\<in>set tcs. \<not> list_ex (expired now) (chain tc)"
  using assms
proof (induction cs arbitrary: acc w)
  case Nil
  then show ?case by simp
next
  case (Cons c cs)
  obtain r w1 where f: "fetchEntityStatementChain env c verify w = (r, w1)"
    by (cases "fetchEntityStatementChain env c verify w")
  show ?case
  proof (cases r)
    case (Inl e)
    with Cons.prems f show ?thesis by simp
  next
    case (Inr sts)
    show ?thesis
    proof (cases "resolveCandidate env now c sts")
      case (Throw e)
      with Cons.prems f Inr show ?thesis by simp
    next
      case Continue
      with Cons.prems f Inr have "forCandidates env verify now cs acc w1 = (Inr tcs, w')" by simp
      then show ?thesis using Cons.prems(2) by (rule Cons.IH)
    next
      case (Push tc)
      with Cons.prems f Inr
      have run: "forCandidates env verify now cs (acc @ [tc]) w1 = (Inr tcs, w')" by simp
      have "\<not> list_ex (expired now) (chain tc)"
        using resolveCandidate_Push [OF Push] by simp
      with Cons.prems(2) have "\<forall>x\<in>set (acc @ [tc]). \<not> list_ex (expired now) (chain x)" by simp
      with run show ?thesis by (rule Cons.IH)
    qed
  qed
qed

lemma resolveCandidate_combiner:
  assumes "combiner (butlast sts) = combineMetadataPolicies env (butlast sts)"
  shows "resolveCandidate (env\<lparr>combineMetadataPolicies := combiner\<rparr>) now cfgs sts =
         resolveCandidate env now cfgs sts"
  using assms
  by (simp add: resolveCandidate_def Let_def slice_0_minus_1_butlast
      cong: option.case_cong try_result.case_cong)

lemma forCandidates_all_empty:
  assumes "\<forall>c\<in>set cs. \<forall>w. \<exists>w'. fetchEntityStatementChain env c verify w = (Inr [], w')"
  shows "\<exists>w2. forCandidates env verify now cs acc w = (Inr acc, w2)"
  using assms
proof (induction cs arbitrary: w)
  case Nil
  show ?case by simp
next
  case (Cons c cs)
  then obtain w' where f: "fetchEntityStatementChain env c verify w = (Inr [], w')"
    by (meson list.set_intros(1))
  have "\<exists>w2. forCandidates env verify now cs acc w' = (Inr acc, w2)"
    using Cons.prems by (intro Cons.IH) simp
  with f show ?case by (simp add: resolveCandidate_empty)
qed


lemma forCandidates_Inl:
  assumes "forCandidates env verify now cs acc w = (Inl e, w2)"
  shows "(\<exists>c\<in>set cs. \<exists>w. fst (fetchEntityStatementChain env c verify w) = Inl e) \<or>
         (\<exists>c\<in>set cs. at_index c (int (length c) - 1) = None)"
  using assms
proof (induction cs arbitrary: acc w)
  case Nil
  then show ?case by simp
next
  case (Cons c cs)
  obtain r w1 where f: "fetchEntityStatementChain env c verify w = (r, w1)"
    by (cases "fetchEntityStatementChain env c verify w")
  show ?case
  proof (cases r)
    case (Inl e')
    with Cons.prems f have "e' = e" by simp
    with f Inl have "fst (fetchEntityStatementChain env c verify w) = Inl e" by simp
    then show ?thesis by auto
  next
    case (Inr sts)
    show ?thesis
    proof (cases "resolveCandidate env now c sts")
      case (Throw e')
      then have "c = []" using resolveCandidate_Throw by blast
      then have "at_index c (int (length c) - 1) = None" by (simp add: at_index_Nil)
      then show ?thesis by auto
    next
      case Continue
      with Cons.prems f Inr have "forCandidates env verify now cs acc w1 = (Inl e, w2)" by simp
      from Cons.IH [OF this] show ?thesis by auto
    next
      case (Push tc)
      with Cons.prems f Inr
      have "forCandidates env verify now cs (acc @ [tc]) w1 = (Inl e, w2)" by simp
      from Cons.IH [OF this] show ?thesis by auto
    qed
  qed
qed


section \<open>Facts about the criticality rule\<close>

lemma combineMetadataPolicies_spec_crit:
  assumes "i < length statements"
    and "metadata_policy_crit (statements ! i) = Some operators"
    and "operator \<in> set operators" "operator \<notin> set supportedOperators"
  shows "combineMetadataPolicies_spec supportedOperators foldPolicies statements =
         Inl (OpenIdFederationError MetadataPolicyCrit ''critical policy unsupported'')"
proof -
  have "namesUnsupportedCritical supportedOperators (statements ! i)"
    using assms(2,3,4)
    by (auto simp: namesUnsupportedCritical_def list_ex_iff)
  then have "list_ex (namesUnsupportedCritical supportedOperators) statements"
    using assms(1) by (auto simp: list_ex_iff)
  then show ?thesis by (simp add: combineMetadataPolicies_spec_def)
qed

section \<open>Claims about the entity statement schema\<close>

text \<open>
  C9: claims accepted by the entity statement schema have pairwise distinct key identifiers
  in their \<open>jwks\<close> (an absent \<open>kid\<close> counts as an identifier of its own), and an input whose
  parsed \<open>jwks\<close> holds two keys with the same \<open>kid\<close> fails validation, with the duplicate key
  ids issue.
\<close>

theorem accepted_claims_have_distinct_kids:
  "(entityStatementClaimsSchema objectSchema input = Inr data \<longrightarrow>
      distinct (map kid (keys (jwks data)))) \<and>
   (objectSchema input = Inr parsed \<and> i < length (keys (jwks parsed)) \<and>
    j < length (keys (jwks parsed)) \<and> i \<noteq> j \<and>
    kid (keys (jwks parsed) ! i) = kid (keys (jwks parsed) ! j) \<longrightarrow>
      entityStatementClaimsSchema objectSchema input = Inl [duplicate_key_ids_issue])"
proof (intro conjI impI)
  assume "entityStatementClaimsSchema objectSchema input = Inr data"
  then have "superRefine data = []"
    by (auto simp: entityStatementClaimsSchema_def split: sum.splits list.splits)
  then show "distinct (map kid (keys (jwks data)))" by (simp add: superRefine_Nil_iff)
next
  assume a: "objectSchema input = Inr parsed \<and> i < length (keys (jwks parsed)) \<and>
    j < length (keys (jwks parsed)) \<and> i \<noteq> j \<and>
    kid (keys (jwks parsed) ! i) = kid (keys (jwks parsed) ! j)"
  then have "\<not> distinct (map kid (keys (jwks parsed)))"
    by (auto simp: distinct_conv_nth)
  then have "superRefine parsed = [duplicate_key_ids_issue]"
    by (rule superRefine_duplicate)
  then show "entityStatementClaimsSchema objectSchema input = Inl [duplicate_key_ids_issue]"
    using a by (simp add: entityStatementClaimsSchema_def)
qed

text \<open>
  C9 at concrete inputs, with the identity as object schema: key ids \<open>k1\<close>, \<open>k2\<close>, \<open>k3\<close>
  are accepted; key ids \<open>k1\<close>, \<open>k2\<close>, \<open>k1\<close> are rejected.
\<close>

theorem accepted_claims_have_distinct_kids_witness:
  "entityStatementClaimsSchema Inr
     (ex_statement ''https://ta'' ''https://leaf'' 5000 [Some ''k1'', Some ''k2'', Some ''k3''] None None)
     = Inr (ex_statement ''https://ta'' ''https://leaf'' 5000 [Some ''k1'', Some ''k2'', Some ''k3''] None None)
   \<and> distinct (map kid (keys (jwks
        (ex_statement ''https://ta'' ''https://leaf'' 5000 [Some ''k1'', Some ''k2'', Some ''k3''] None None))))
   \<and> kid (keys (jwks (ex_statement ''https://ta'' ''https://leaf'' 5000
                        [Some ''k1'', Some ''k2'', Some ''k1''] None None)) ! 0)
     = kid (keys (jwks (ex_statement ''https://ta'' ''https://leaf'' 5000
                        [Some ''k1'', Some ''k2'', Some ''k1''] None None)) ! 2)
   \<and> entityStatementClaimsSchema Inr
       (ex_statement ''https://ta'' ''https://leaf'' 5000 [Some ''k1'', Some ''k2'', Some ''k1''] None None)
     = Inl [duplicate_key_ids_issue]"
proof -
  let ?good = "ex_statement ''https://ta'' ''https://leaf'' 5000 [Some ''k1'', Some ''k2'', Some ''k3''] None None"
  let ?bad = "ex_statement ''https://ta'' ''https://leaf'' 5000 [Some ''k1'', Some ''k2'', Some ''k1''] None None"
  have accepted: "entityStatementClaimsSchema Inr ?good = Inr ?good"
    by (simp add: entityStatementClaimsSchema_def superRefine_def some_indexed_def indexOf_def
        ex_statement_def ex_key_def)
  have dup: "(Inr ?bad :: issue list + entity_statement_claims) = Inr ?bad \<and>
      (0::nat) < length (keys (jwks ?bad)) \<and> (2::nat) < length (keys (jwks ?bad)) \<and> (0::nat) \<noteq> 2 \<and>
      kid (keys (jwks ?bad) ! 0) = kid (keys (jwks ?bad) ! 2)"
    by (simp add: ex_statement_def ex_key_def)
  from accepted dup
    accepted_claims_have_distinct_kids
      [where objectSchema = Inr and input = ?good and data = ?good and parsed = ?bad
         and i = 0 and j = 2]
    accepted_claims_have_distinct_kids
      [where objectSchema = Inr and input = ?bad and data = ?bad and parsed = ?bad
         and i = 0 and j = 2]
  show ?thesis by blast
qed

section \<open>Claims about trust chain resolution\<close>

text \<open>
  C1: a candidate whose fetched statement chain holds, at any position \<open>i\<close>, a statement
  that expires before \<open>now\<close> pushes no trust chain and the loop goes on with the next
  candidate, whatever was collected before it. For the whole call: no trust chain in the
  returned list carries, at any position, a statement that expires before the instant read
  when the call started.
\<close>

theorem expired_statement_discards_candidate:
  "(fetchEntityStatementChain env cfgs verify w = (Inr sts, w') \<and>
    i < length sts \<and> exp (sts ! i) < now \<longrightarrow>
      forCandidates env verify now (cfgs # rest) trustChains w =
      forCandidates env verify now rest trustChains w') \<and>
   (resolveTrustChains env opts w0 = (Inr result, w1) \<and> trustChain \<in> set result \<and>
    k < length (chain trustChain) \<longrightarrow>
      \<not> exp (chain trustChain ! k) < currentTime env w0)"
proof (intro conjI impI)
  assume a: "fetchEntityStatementChain env cfgs verify w = (Inr sts, w') \<and>
    i < length sts \<and> exp (sts ! i) < now"
  then have "list_ex (expired now) sts" by (auto simp: list_ex_expired_iff)
  then have "resolveCandidate env now cfgs sts = Continue" by (rule resolveCandidate_expired)
  with a show "forCandidates env verify now (cfgs # rest) trustChains w =
      forCandidates env verify now rest trustChains w'" by simp
next
  assume a: "resolveTrustChains env opts w0 = (Inr result, w1) \<and> trustChain \<in> set result \<and>
    k < length (chain trustChain)"
  obtain r wd where d: "fetchEntityConfigurationChains env
             (entityId opts) (trustAnchorEntityIds opts) (verifyJwtCallback opts) w0 = (r, wd)"
    by (cases "fetchEntityConfigurationChains env
             (entityId opts) (trustAnchorEntityIds opts) (verifyJwtCallback opts) w0")
  with a obtain cs where "forCandidates env (verifyJwtCallback opts) (currentTime env w0) cs [] wd = (Inr result, w1)"
    by (cases r) (auto simp: resolveTrustChains_def Let_def)
  then have "\<forall>tc\<in>set result. \<not> list_ex (expired (currentTime env w0)) (chain tc)"
    by (rule forCandidates_unexpired) simp
  with a show "\<not> exp (chain trustChain ! k) < currentTime env w0"
    by (auto simp: list_ex_expired_iff)
qed

text \<open>
  C1 at a concrete input: the statement expires at 1500. Judged at 3000 the candidate is
  skipped; a call started at 1000 returns its trust chain.
\<close>

theorem expired_statement_discards_candidate_witness:
  "fetchEntityStatementChain
     (ex_env [[ex_anchor]] [ex_anchor_statement 1500 None] ex_combine ex_apply) [ex_anchor] () 2 =
     (Inr [ex_anchor_statement 1500 None], 3) \<and>
   exp ([ex_anchor_statement 1500 None] ! 0) < 3000 \<and>
   forCandidates (ex_env [[ex_anchor]] [ex_anchor_statement 1500 None] ex_combine ex_apply)
     () 3000 [[ex_anchor]] [] 2 = (Inr [], 3) \<and>
   resolveTrustChains (ex_env [[ex_anchor]] [ex_anchor_statement 1500 None] ex_combine ex_apply)
     ex_options 1 =
     (Inr [\<lparr>valid = True, chain = [ex_anchor_statement 1500 None],
            rawLeafEntityConfiguration = ex_anchor, resolvedLeafMetadata = None,
            trustAnchorEntityConfiguration = ex_anchor\<rparr>], 3) \<and>
   \<not> exp ([ex_anchor_statement 1500 None] ! 0) <
       currentTime (ex_env [[ex_anchor]] [ex_anchor_statement 1500 None] ex_combine ex_apply) 1"
proof -
  let ?env = "ex_env [[ex_anchor]] [ex_anchor_statement 1500 None] ex_combine ex_apply"
  let ?tc = "\<lparr>valid = True, chain = [ex_anchor_statement 1500 None],
            rawLeafEntityConfiguration = ex_anchor, resolvedLeafMetadata = None,
            trustAnchorEntityConfiguration = ex_anchor\<rparr>"
  have h1: "fetchEntityStatementChain ?env [ex_anchor] () 2 = (Inr [ex_anchor_statement 1500 None], 3) \<and>
      (0::nat) < length [ex_anchor_statement 1500 None] \<and>
      exp ([ex_anchor_statement 1500 None] ! 0) < 3000"
    by (simp add: ex_defs)
  have h2: "resolveTrustChains ?env ex_options 1 = (Inr [?tc], 3) \<and> ?tc \<in> set [?tc] \<and>
      (0::nat) < length (chain ?tc)"
    by (simp add: resolve_defs ex_defs)
  note t = expired_statement_discards_candidate
    [where env = ?env and cfgs = "[ex_anchor]" and verify = "()" and w = 2
       and sts = "[ex_anchor_statement 1500 None]" and w' = 3 and i = 0 and now = 3000
       and rest = "[]" and trustChains = "[]" and opts = ex_options and ?w0.0 = 1
       and result = "[?tc]" and ?w1.0 = 3 and trustChain = ?tc and k = 0]
  from t h1 have "forCandidates ?env () 3000 [[ex_anchor]] [] 2 = forCandidates ?env () 3000 [] [] 3"
    by blast
  then have c1: "forCandidates ?env () 3000 [[ex_anchor]] [] 2 = (Inr [], 3)" by simp
  from t h2 have "\<not> exp (chain ?tc ! 0) < currentTime ?env 1" by blast
  then have c2: "\<not> exp ([ex_anchor_statement 1500 None] ! 0) < currentTime ?env 1" by simp
  from h1 h2 c1 c2 show ?thesis by blast
qed

text \<open>
  C2: a candidate with a configuration chain \<open>leaf, ...\<close> whose fetched statement chain is
  the single unexpired \<open>statement\<close> pushes exactly one trust chain: its resolved metadata is
  the metadata of \<open>leaf\<close> as it stands (absent stays absent), its trust anchor configuration
  is \<open>leaf\<close>, element 0 of the configuration chain. The pushed value mentions neither the
  combiner, the merger nor the applicator.
\<close>

theorem single_statement_chain_is_identity:
  assumes "fetchEntityStatementChain env (leaf # others) verify w = (Inr [statement], w')"
    and "\<not> exp statement < now"
  shows "forCandidates env verify now ((leaf # others) # rest) trustChains w =
         forCandidates env verify now rest
           (trustChains @
            [\<lparr>valid = True, chain = [statement], rawLeafEntityConfiguration = leaf,
              resolvedLeafMetadata = ec_metadata leaf,
              trustAnchorEntityConfiguration = leaf\<rparr>]) w'"
proof -
  have "\<not> expired now statement" using assms(2) by (simp add: expired_def)
  then have "resolveCandidate env now (leaf # others) [statement] =
      Push \<lparr>valid = True, chain = [statement], rawLeafEntityConfiguration = leaf,
              resolvedLeafMetadata = ec_metadata leaf,
              trustAnchorEntityConfiguration = leaf\<rparr>"
    by (simp add: resolveCandidate_single at_index_0_Cons)
  with assms(1) show ?thesis by simp
qed

text \<open>C2 at a concrete input: the leaf is its own trust anchor.\<close>

theorem single_statement_chain_is_identity_witness:
  "fetchEntityStatementChain
     (ex_env [[ex_leaf]] [ex_anchor_statement 1500 None] ex_combine ex_apply) [ex_leaf] () 2 =
     (Inr [ex_anchor_statement 1500 None], 3) \<and>
   \<not> exp (ex_anchor_statement 1500 None) < 1000 \<and>
   forCandidates (ex_env [[ex_leaf]] [ex_anchor_statement 1500 None] ex_combine ex_apply)
     () 1000 [[ex_leaf]] [] 2 =
     (Inr [\<lparr>valid = True, chain = [ex_anchor_statement 1500 None],
            rawLeafEntityConfiguration = ex_leaf,
            resolvedLeafMetadata =
              Some [(''openid_provider'', JObject [(''organization_name'', JString ''A'')])],
            trustAnchorEntityConfiguration = ex_leaf\<rparr>], 3)"
proof -
  let ?env = "ex_env [[ex_leaf]] [ex_anchor_statement 1500 None] ex_combine ex_apply"
  have h1: "fetchEntityStatementChain ?env (ex_leaf # []) () 2 =
      (Inr [ex_anchor_statement 1500 None], 3)"
    by (simp add: ex_defs)
  have h2: "\<not> exp (ex_anchor_statement 1500 None) < 1000"
    by (simp add: ex_defs)
  have meta: "ec_metadata ex_leaf =
      Some [(''openid_provider'', JObject [(''organization_name'', JString ''A'')])]"
    by (simp add: ex_defs)
  from single_statement_chain_is_identity [OF h1 h2, of "[]" "[]"] h1 h2 meta
  show ?thesis by simp
qed

text \<open>
  C3, as stated, fails: every configuration chain has its final element and the first
  candidate alone yields a trust chain, but the statement fetch for the second candidate
  rejects, and the call ends with that error instead of returning the first trust chain.
\<close>

theorem rejected_fetch_aborts_call_counterexample:
  "at_index [ex_anchor] (int (length [ex_anchor]) - 1) = Some ex_anchor \<and>
   at_index [ex_leaf, ex_anchor] (int (length [ex_leaf, ex_anchor]) - 1) = Some ex_anchor \<and>
   resolveTrustChains (ex_env_failing_fetch [[ex_anchor]]) ex_options 1 =
     (Inr [\<lparr>valid = True, chain = [ex_anchor_statement 5000 None],
            rawLeafEntityConfiguration = ex_anchor, resolvedLeafMetadata = None,
            trustAnchorEntityConfiguration = ex_anchor\<rparr>], 3) \<and>
   resolveTrustChains (ex_env_failing_fetch [[ex_anchor], [ex_leaf, ex_anchor]]) ex_options 1 =
     (Inl (Error ''fetch failed''), 4)"
  by (simp add: resolve_defs ex_defs)

text \<open>
  C3, amended: each per-candidate failure only skips the candidate. If the fetched
  statement chain is empty, or holds an expired statement, or (on a chain of two or more
  statements) the combiner throws any error at all, be it an operator-merge error, a
  critical-policy error or another one, or the applicator throws any error at all, then the
  loop goes on with the next candidate and the trust chains collected so far are unchanged.
  A call in which every candidate's statement fetch yields the empty chain returns the empty
  list. And a call ends with an error only if that error is the rejection of the discovery
  fetch or of a statement fetch, or some configuration chain lacks its final element.
\<close>

theorem only_fetch_rejection_or_missing_anchor_aborts:
  "(fetchEntityStatementChain env cfgs verify w = (Inr sts, w') \<and>
    (sts = [] \<or>
     (\<exists>i<length sts. exp (sts ! i) < now) \<or>
     (2 \<le> length sts \<and> (\<exists>e. combineMetadataPolicies env (butlast sts) = Inl e)) \<or>
     (2 \<le> length sts \<and>
      (\<exists>leaf others mergedPolicy e.
         cfgs = leaf # others \<and>
         combineMetadataPolicies env (butlast sts) = Inr mergedPolicy \<and>
         applyMetadataPolicyToMetadata env
           (mergeMetadata env (orEmpty (ec_metadata leaf)) (orEmpty (metadata (hd sts))))
           mergedPolicy = Inl e))) \<longrightarrow>
      forCandidates env verify now (cfgs # rest) trustChains w =
      forCandidates env verify now rest trustChains w') \<and>
   (fetchEntityConfigurationChains env
      (entityId opts) (trustAnchorEntityIds opts) (verifyJwtCallback opts) w0 = (Inr candidates, w1) \<and>
    (\<forall>c\<in>set candidates. \<forall>w. \<exists>w'.
       fetchEntityStatementChain env c (verifyJwtCallback opts) w = (Inr [], w')) \<longrightarrow>
      fst (resolveTrustChains env opts w0) = Inr []) \<and>
   (resolveTrustChains env opts w0 = (Inl e, w2) \<longrightarrow>
      fst (fetchEntityConfigurationChains env
             (entityId opts) (trustAnchorEntityIds opts) (verifyJwtCallback opts) w0) = Inl e \<or>
      (\<exists>cs wd.
         fetchEntityConfigurationChains env
           (entityId opts) (trustAnchorEntityIds opts) (verifyJwtCallback opts) w0 = (Inr cs, wd) \<and>
         ((\<exists>c\<in>set cs. \<exists>w. fst (fetchEntityStatementChain env c (verifyJwtCallback opts) w) = Inl e) \<or>
          (\<exists>c\<in>set cs. at_index c (int (length c) - 1) = None))))"
proof (intro conjI impI)
  assume a: "fetchEntityStatementChain env cfgs verify w = (Inr sts, w') \<and>
    (sts = [] \<or>
     (\<exists>i<length sts. exp (sts ! i) < now) \<or>
     (2 \<le> length sts \<and> (\<exists>e. combineMetadataPolicies env (butlast sts) = Inl e)) \<or>
     (2 \<le> length sts \<and>
      (\<exists>leaf others mergedPolicy e.
         cfgs = leaf # others \<and>
         combineMetadataPolicies env (butlast sts) = Inr mergedPolicy \<and>
         applyMetadataPolicyToMetadata env
           (mergeMetadata env (orEmpty (ec_metadata leaf)) (orEmpty (metadata (hd sts))))
           mergedPolicy = Inl e)))"
  have "resolveCandidate env now cfgs sts = Continue"
  proof (cases "list_ex (expired now) sts")
    case True
    then show ?thesis by (rule resolveCandidate_expired)
  next
    case False
    then have ne: "\<not> (\<exists>i<length sts. exp (sts ! i) < now)" by (simp add: list_ex_expired_iff)
    from a ne consider "sts = []"
      | e where "2 \<le> length sts" "combineMetadataPolicies env (butlast sts) = Inl e"
      | leaf others mergedPolicy e where "2 \<le> length sts" "cfgs = leaf # others"
          "combineMetadataPolicies env (butlast sts) = Inr mergedPolicy"
          "applyMetadataPolicyToMetadata env
             (mergeMetadata env (orEmpty (ec_metadata leaf)) (orEmpty (metadata (hd sts))))
             mergedPolicy = Inl e"
      by blast
    then show ?thesis
    proof cases
      case 1
      then show ?thesis by (simp add: resolveCandidate_empty)
    next
      case 2
      then show ?thesis by (rule resolveCandidate_combine_failed)
    next
      case 3
      then show ?thesis using False
        by (simp add: resolveCandidate_general at_index_0_Cons)
    qed
  qed
  with a show "forCandidates env verify now (cfgs # rest) trustChains w =
      forCandidates env verify now rest trustChains w'" by simp
next
  assume a: "fetchEntityConfigurationChains env
      (entityId opts) (trustAnchorEntityIds opts) (verifyJwtCallback opts) w0 = (Inr candidates, w1) \<and>
    (\<forall>c\<in>set candidates. \<forall>w. \<exists>w'.
       fetchEntityStatementChain env c (verifyJwtCallback opts) w = (Inr [], w'))"
  then have "\<forall>c\<in>set candidates. \<forall>w. \<exists>w'.
       fetchEntityStatementChain env c (verifyJwtCallback opts) w = (Inr [], w')" by simp
  then have "\<exists>w2. forCandidates env (verifyJwtCallback opts) (currentTime env w0) candidates [] w1 = (Inr [], w2)"
    by (rule forCandidates_all_empty)
  then obtain w2 where "forCandidates env (verifyJwtCallback opts) (currentTime env w0) candidates [] w1 = (Inr [], w2)" ..
  with a show "fst (resolveTrustChains env opts w0) = Inr []"
    by (simp add: resolveTrustChains_def Let_def)
next
  assume a: "resolveTrustChains env opts w0 = (Inl e, w2)"
  obtain r wd where d: "fetchEntityConfigurationChains env
      (entityId opts) (trustAnchorEntityIds opts) (verifyJwtCallback opts) w0 = (r, wd)"
    by (cases "fetchEntityConfigurationChains env
      (entityId opts) (trustAnchorEntityIds opts) (verifyJwtCallback opts) w0")
  show "fst (fetchEntityConfigurationChains env
             (entityId opts) (trustAnchorEntityIds opts) (verifyJwtCallback opts) w0) = Inl e \<or>
      (\<exists>cs wd.
         fetchEntityConfigurationChains env
           (entityId opts) (trustAnchorEntityIds opts) (verifyJwtCallback opts) w0 = (Inr cs, wd) \<and>
         ((\<exists>c\<in>set cs. \<exists>w. fst (fetchEntityStatementChain env c (verifyJwtCallback opts) w) = Inl e) \<or>
          (\<exists>c\<in>set cs. at_index c (int (length c) - 1) = None)))"
  proof (cases r)
    case (Inl e')
    with a d have "e' = e" by (simp add: resolveTrustChains_def Let_def)
    with d Inl show ?thesis by simp
  next
    case (Inr cs)
    with a d
    have "forCandidates env (verifyJwtCallback opts) (currentTime env w0) cs [] wd = (Inl e, w2)"
      by (simp add: resolveTrustChains_def Let_def)
    then have "(\<exists>c\<in>set cs. \<exists>w. fst (fetchEntityStatementChain env c (verifyJwtCallback opts) w) = Inl e) \<or>
         (\<exists>c\<in>set cs. at_index c (int (length c) - 1) = None)"
      by (rule forCandidates_Inl)
    with d Inr show ?thesis by simp
  qed
qed

text \<open>
  C3, amended, at concrete inputs: a combiner that throws an operator-merge error, an
  applicator that throws a policy-validation error, a subject for which no statement chain
  is found, and a call that ends with the error of a rejected statement fetch.
\<close>

theorem only_fetch_rejection_or_missing_anchor_aborts_witness:
  "combineMetadataPolicies
     (ex_env [[ex_leaf, ex_anchor]]
        [ex_subordinate_statement 5000 None, ex_anchor_statement 5000 None]
        (\<lambda>statements. Inl (PolicyOperatorMergeError ''value'')) ex_apply)
     (butlast [ex_subordinate_statement 5000 None, ex_anchor_statement 5000 None]) =
     Inl (PolicyOperatorMergeError ''value'') \<and>
   forCandidates
     (ex_env [[ex_leaf, ex_anchor]]
        [ex_subordinate_statement 5000 None, ex_anchor_statement 5000 None]
        (\<lambda>statements. Inl (PolicyOperatorMergeError ''value'')) ex_apply)
     () 1000 [[ex_leaf, ex_anchor]] [] 2 = (Inr [], 3) \<and>
   forCandidates
     (ex_env [[ex_leaf, ex_anchor]]
        [ex_subordinate_statement 5000 None, ex_anchor_statement 5000 None]
        ex_combine (\<lambda>leafMetadata policy. Inl (PolicyValidationError ''essential'')))
     () 1000 [[ex_leaf, ex_anchor]] [] 2 = (Inr [], 3) \<and>
   fst (resolveTrustChains
          (ex_env [[ex_leaf, ex_anchor], [ex_leaf, ex_anchor]] [] ex_combine ex_apply)
          ex_options 1) = Inr [] \<and>
   resolveTrustChains (ex_env_failing_fetch [[ex_anchor], [ex_leaf, ex_anchor]]) ex_options 1 =
     (Inl (Error ''fetch failed''), 4) \<and>
   (\<exists>c\<in>set [[ex_anchor], [ex_leaf, ex_anchor]]. \<exists>w.
      fst (fetchEntityStatementChain (ex_env_failing_fetch [[ex_anchor], [ex_leaf, ex_anchor]])
             c (verifyJwtCallback ex_options) w) = Inl (Error ''fetch failed''))"
proof -
  let ?sts = "[ex_subordinate_statement 5000 None, ex_anchor_statement 5000 None]"
  let ?cfgs = "[ex_leaf, ex_anchor]"
  let ?merge_fails = "ex_env [?cfgs] ?sts
        (\<lambda>statements. Inl (PolicyOperatorMergeError ''value'')) ex_apply"
  let ?apply_fails = "ex_env [?cfgs] ?sts
        ex_combine (\<lambda>leafMetadata policy. Inl (PolicyValidationError ''essential''))"
  let ?no_path = "ex_env [?cfgs, ?cfgs] [] ex_combine ex_apply"
  have m0: "combineMetadataPolicies ?merge_fails (butlast ?sts) =
      Inl (PolicyOperatorMergeError ''value'')"
    by (simp add: ex_defs)
  have m: "fetchEntityStatementChain ?merge_fails ?cfgs () 2 = (Inr ?sts, 3) \<and>
      (?sts = [] \<or> (\<exists>i<length ?sts. exp (?sts ! i) < 1000) \<or>
       (2 \<le> length ?sts \<and> (\<exists>e. combineMetadataPolicies ?merge_fails (butlast ?sts) = Inl e)) \<or>
       (2 \<le> length ?sts \<and>
        (\<exists>leaf others mergedPolicy e.
           ?cfgs = leaf # others \<and>
           combineMetadataPolicies ?merge_fails (butlast ?sts) = Inr mergedPolicy \<and>
           applyMetadataPolicyToMetadata ?merge_fails
             (mergeMetadata ?merge_fails (orEmpty (ec_metadata leaf)) (orEmpty (metadata (hd ?sts))))
             mergedPolicy = Inl e)))"
    using m0 by (simp add: ex_env_def)
  have a: "fetchEntityStatementChain ?apply_fails ?cfgs () 2 = (Inr ?sts, 3) \<and>
      (?sts = [] \<or> (\<exists>i<length ?sts. exp (?sts ! i) < 1000) \<or>
       (2 \<le> length ?sts \<and> (\<exists>e. combineMetadataPolicies ?apply_fails (butlast ?sts) = Inl e)) \<or>
       (2 \<le> length ?sts \<and>
        (\<exists>leaf others mergedPolicy e.
           ?cfgs = leaf # others \<and>
           combineMetadataPolicies ?apply_fails (butlast ?sts) = Inr mergedPolicy \<and>
           applyMetadataPolicyToMetadata ?apply_fails
             (mergeMetadata ?apply_fails (orEmpty (ec_metadata leaf)) (orEmpty (metadata (hd ?sts))))
             mergedPolicy = Inl e)))"
    by (simp add: ex_defs resolve_defs)
  have n: "fetchEntityConfigurationChains ?no_path
      (entityId ex_options) (trustAnchorEntityIds ex_options) (verifyJwtCallback ex_options) 1 =
        (Inr [?cfgs, ?cfgs], 2) \<and>
      (\<forall>c\<in>set [?cfgs, ?cfgs]. \<forall>w. \<exists>w'.
         fetchEntityStatementChain ?no_path c (verifyJwtCallback ex_options) w = (Inr [], w'))"
    by (simp add: ex_env_def)
  let ?rejecting = "ex_env_failing_fetch [[ex_anchor], [ex_leaf, ex_anchor]]"
  have t: "resolveTrustChains ?rejecting ex_options 1 = (Inl (Error ''fetch failed''), 4)"
    by (simp add: resolve_defs ex_defs)
  have d: "fetchEntityConfigurationChains ?rejecting
      (entityId ex_options) (trustAnchorEntityIds ex_options) (verifyJwtCallback ex_options) 1 =
        (Inr [[ex_anchor], [ex_leaf, ex_anchor]], 2)"
    by (simp add: ex_defs)
  have present: "\<not> (\<exists>c\<in>set [[ex_anchor], [ex_leaf, ex_anchor]].
      at_index c (int (length c) - 1) = None)"
    by (simp add: at_index_def)
  have "forCandidates ?merge_fails () 1000 [?cfgs] [] 2 = forCandidates ?merge_fails () 1000 [] [] 3"
    by (rule only_fetch_rejection_or_missing_anchor_aborts
      [where env = ?merge_fails and cfgs = ?cfgs and verify = "()" and w = 2 and sts = ?sts
         and w' = 3 and now = 1000 and rest = "[]" and trustChains = "[]",
       THEN conjunct1, THEN mp, OF m])
  then have c1: "forCandidates ?merge_fails () 1000 [?cfgs] [] 2 = (Inr [], 3)" by simp
  have "forCandidates ?apply_fails () 1000 [?cfgs] [] 2 = forCandidates ?apply_fails () 1000 [] [] 3"
    by (rule only_fetch_rejection_or_missing_anchor_aborts
      [where env = ?apply_fails and cfgs = ?cfgs and verify = "()" and w = 2 and sts = ?sts
         and w' = 3 and now = 1000 and rest = "[]" and trustChains = "[]",
       THEN conjunct1, THEN mp, OF a])
  then have c2: "forCandidates ?apply_fails () 1000 [?cfgs] [] 2 = (Inr [], 3)" by simp
  have c3: "fst (resolveTrustChains ?no_path ex_options 1) = Inr []"
    by (rule only_fetch_rejection_or_missing_anchor_aborts
      [where env = ?no_path and opts = ex_options and ?w0.0 = 1
         and candidates = "[?cfgs, ?cfgs]" and ?w1.0 = 2,
       THEN conjunct2, THEN conjunct1, THEN mp, OF n])
  have "fst (fetchEntityConfigurationChains ?rejecting
             (entityId ex_options) (trustAnchorEntityIds ex_options)
             (verifyJwtCallback ex_options) 1) = Inl (Error ''fetch failed'') \<or>
      (\<exists>cs wd.
         fetchEntityConfigurationChains ?rejecting
           (entityId ex_options) (trustAnchorEntityIds ex_options)
           (verifyJwtCallback ex_options) 1 = (Inr cs, wd) \<and>
         ((\<exists>c\<in>set cs. \<exists>w. fst (fetchEntityStatementChain ?rejecting c
               (verifyJwtCallback ex_options) w) = Inl (Error ''fetch failed'')) \<or>
          (\<exists>c\<in>set cs. at_index c (int (length c) - 1) = None)))"
    by (rule only_fetch_rejection_or_missing_anchor_aborts
      [where env = ?rejecting and opts = ex_options and ?w0.0 = 1
         and e = "Error ''fetch failed''" and ?w2.0 = 4,
       THEN conjunct2, THEN conjunct2, THEN mp, OF t])
  with d present
  have c4: "\<exists>c\<in>set [[ex_anchor], [ex_leaf, ex_anchor]]. \<exists>w.
      fst (fetchEntityStatementChain ?rejecting c (verifyJwtCallback ex_options) w) =
        Inl (Error ''fetch failed'')"
    by auto
  show ?thesis by (intro conjI m0 c1 c2 c3 t c4)
qed

text \<open>
  C4: on a statement chain of two or more statements the combiner is run on the chain
  without its final statement and on nothing else: a combiner that agrees with the given
  one on that argument leads to the same outcome for the candidate. If the combiner throws
  there, whatever the error, the candidate pushes no trust chain and the loop goes on. If it
  returns \<open>mergedPolicy\<close> there, on an unexpired chain of a candidate with a configuration
  chain \<open>leaf, ...\<close>, then \<open>mergedPolicy\<close> is the policy the applicator is run with, and the
  candidate's outcome is the applicator's: skipped when it throws, pushed with the resolved
  metadata otherwise.
\<close>

theorem combiner_runs_without_final_statement:
  "(2 \<le> length sts \<and> combiner (butlast sts) = combineMetadataPolicies env (butlast sts) \<longrightarrow>
      resolveCandidate (env\<lparr>combineMetadataPolicies := combiner\<rparr>) now cfgs sts =
      resolveCandidate env now cfgs sts) \<and>
   (fetchEntityStatementChain env cfgs verify w = (Inr sts, w') \<and> 2 \<le> length sts \<and>
    combineMetadataPolicies env (butlast sts) = Inl e \<longrightarrow>
      forCandidates env verify now (cfgs # rest) trustChains w =
      forCandidates env verify now rest trustChains w') \<and>
   (2 \<le> length sts \<and> \<not> (\<exists>i<length sts. exp (sts ! i) < now) \<and>
    combineMetadataPolicies env (butlast sts) = Inr mergedPolicy \<and> cfgs = leaf # others \<longrightarrow>
      resolveCandidate env now cfgs sts =
        (case applyMetadataPolicyToMetadata env
                (mergeMetadata env (orEmpty (ec_metadata leaf)) (orEmpty (metadata (hd sts))))
                mergedPolicy of
           Inl failure \<Rightarrow> Continue
         | Inr resolved \<Rightarrow>
             Push \<lparr>valid = True, chain = sts, rawLeafEntityConfiguration = leaf,
                   resolvedLeafMetadata = resolved,
                   trustAnchorEntityConfiguration = last cfgs\<rparr>))"
proof (intro conjI impI)
  assume "2 \<le> length sts \<and> combiner (butlast sts) = combineMetadataPolicies env (butlast sts)"
  then show "resolveCandidate (env\<lparr>combineMetadataPolicies := combiner\<rparr>) now cfgs sts =
      resolveCandidate env now cfgs sts"
    by (simp add: resolveCandidate_combiner)
next
  assume a: "fetchEntityStatementChain env cfgs verify w = (Inr sts, w') \<and> 2 \<le> length sts \<and>
    combineMetadataPolicies env (butlast sts) = Inl e"
  then have "resolveCandidate env now cfgs sts = Continue"
    by (simp add: resolveCandidate_combine_failed)
  with a show "forCandidates env verify now (cfgs # rest) trustChains w =
      forCandidates env verify now rest trustChains w'" by simp
next
  assume a: "2 \<le> length sts \<and> \<not> (\<exists>i<length sts. exp (sts ! i) < now) \<and>
    combineMetadataPolicies env (butlast sts) = Inr mergedPolicy \<and> cfgs = leaf # others"
  then have ne: "\<not> list_ex (expired now) sts" by (simp add: list_ex_expired_iff)
  from a have len: "2 \<le> length sts"
    and ok: "combineMetadataPolicies env (butlast sts) = Inr mergedPolicy"
    and cfgs: "cfgs = leaf # others" by simp_all
  show "resolveCandidate env now cfgs sts =
        (case applyMetadataPolicyToMetadata env
                (mergeMetadata env (orEmpty (ec_metadata leaf)) (orEmpty (metadata (hd sts))))
                mergedPolicy of
           Inl failure \<Rightarrow> Continue
         | Inr resolved \<Rightarrow>
             Push \<lparr>valid = True, chain = sts, rawLeafEntityConfiguration = leaf,
                   resolvedLeafMetadata = resolved,
                   trustAnchorEntityConfiguration = last cfgs\<rparr>)"
    using resolveCandidate_general [OF len ne ok, of cfgs]
    by (simp add: cfgs at_index_0_Cons)
qed

text \<open>
  C4 at concrete inputs. A combiner that accepts one statement and throws on any other
  number of statements does as well as the example combiner on a chain of two. A combiner
  that always throws discards the candidate. And when the combiner returns, for the one
  statement it accepts, a policy that fixes the organization name, the applicator (which
  here throws on any other policy) is run with that policy and the candidate is pushed with
  the fixed name.
\<close>

theorem combiner_runs_without_final_statement_witness:
  "resolveCandidate
     ((ex_env [[ex_leaf, ex_anchor]]
         [ex_subordinate_statement 5000 None, ex_anchor_statement 5000 None] ex_combine ex_apply)
      \<lparr>combineMetadataPolicies :=
          (\<lambda>statements. if length statements = 1 then Inr [] else Inl (Error ''not one''))\<rparr>)
     1000 [ex_leaf, ex_anchor]
     [ex_subordinate_statement 5000 None, ex_anchor_statement 5000 None] =
   resolveCandidate
     (ex_env [[ex_leaf, ex_anchor]]
         [ex_subordinate_statement 5000 None, ex_anchor_statement 5000 None] ex_combine ex_apply)
     1000 [ex_leaf, ex_anchor]
     [ex_subordinate_statement 5000 None, ex_anchor_statement 5000 None] \<and>
   combineMetadataPolicies
     (ex_env [[ex_leaf, ex_anchor]]
        [ex_subordinate_statement 5000 None, ex_anchor_statement 5000 None]
        (\<lambda>statements. Inl (Error ''unexpected'')) ex_apply)
     (butlast [ex_subordinate_statement 5000 None, ex_anchor_statement 5000 None]) =
     Inl (Error ''unexpected'') \<and>
   forCandidates
     (ex_env [[ex_leaf, ex_anchor]]
        [ex_subordinate_statement 5000 None, ex_anchor_statement 5000 None]
        (\<lambda>statements. Inl (Error ''unexpected'')) ex_apply)
     () 1000 [[ex_leaf, ex_anchor]] [] 2 = (Inr [], 3) \<and>
   combineMetadataPolicies
     (ex_env [[ex_leaf, ex_anchor]]
        [ex_subordinate_statement 5000 None, ex_anchor_statement 5000 None]
        ex_combine_one ex_apply_fixed_name)
     (butlast [ex_subordinate_statement 5000 None, ex_anchor_statement 5000 None]) =
     Inr ex_policy \<and>
   resolveCandidate
     (ex_env [[ex_leaf, ex_anchor]]
        [ex_subordinate_statement 5000 None, ex_anchor_statement 5000 None]
        ex_combine_one ex_apply_fixed_name)
     1000 [ex_leaf, ex_anchor]
     [ex_subordinate_statement 5000 None, ex_anchor_statement 5000 None] =
     Push \<lparr>valid = True,
           chain = [ex_subordinate_statement 5000 None, ex_anchor_statement 5000 None],
           rawLeafEntityConfiguration = ex_leaf,
           resolvedLeafMetadata =
             Some [(''openid_provider'', JObject [(''organization_name'', JString ''Org'')])],
           trustAnchorEntityConfiguration = ex_anchor\<rparr>"
proof -
  let ?sts = "[ex_subordinate_statement 5000 None, ex_anchor_statement 5000 None]"
  let ?cfgs = "[ex_leaf, ex_anchor]"
  let ?env = "ex_env [?cfgs] ?sts ex_combine ex_apply"
  let ?one = "\<lambda>statements :: entity_statement_claims list.
      if length statements = 1 then Inr [] else (Inl (Error ''not one'') :: error + metadata_policy_t)"
  let ?throws = "ex_env [?cfgs] ?sts (\<lambda>statements. Inl (Error ''unexpected'')) ex_apply"
  let ?fixes = "ex_env [?cfgs] ?sts ex_combine_one ex_apply_fixed_name"
  have h1: "2 \<le> length ?sts \<and> ?one (butlast ?sts) = combineMetadataPolicies ?env (butlast ?sts)"
    by (simp add: ex_defs resolve_defs)
  have h2: "fetchEntityStatementChain ?throws ?cfgs () 2 = (Inr ?sts, 3) \<and> 2 \<le> length ?sts \<and>
      combineMetadataPolicies ?throws (butlast ?sts) = Inl (Error ''unexpected'')"
    by (simp add: ex_env_def)
  have "\<not> list_ex (expired 1000) ?sts"
    by (simp add: expired_def ex_defs)
  then have unexpired: "\<not> (\<exists>i<length ?sts. exp (?sts ! i) < 1000)"
    unfolding list_ex_expired_iff .
  have combined: "combineMetadataPolicies ?fixes (butlast ?sts) = Inr ex_policy"
    by (simp add: ex_env_def ex_combine_one_def)
  have h3: "2 \<le> length ?sts \<and> \<not> (\<exists>i<length ?sts. exp (?sts ! i) < 1000) \<and>
      combineMetadataPolicies ?fixes (butlast ?sts) = Inr ex_policy \<and>
      ?cfgs = ex_leaf # [ex_anchor]"
    using unexpired combined by simp
  have c1: "resolveCandidate (?env\<lparr>combineMetadataPolicies := ?one\<rparr>) 1000 ?cfgs ?sts =
      resolveCandidate ?env 1000 ?cfgs ?sts"
    by (rule combiner_runs_without_final_statement
      [where sts = ?sts and combiner = ?one and env = ?env and now = 1000 and cfgs = ?cfgs,
       THEN conjunct1, THEN mp, OF h1])
  have "forCandidates ?throws () 1000 [?cfgs] [] 2 = forCandidates ?throws () 1000 [] [] 3"
    by (rule combiner_runs_without_final_statement
      [where sts = ?sts and env = ?throws and cfgs = ?cfgs and verify = "()" and w = 2
         and w' = 3 and e = "Error ''unexpected''" and now = 1000 and rest = "[]"
         and trustChains = "[]",
       THEN conjunct2, THEN conjunct1, THEN mp, OF h2])
  then have c2: "forCandidates ?throws () 1000 [?cfgs] [] 2 = (Inr [], 3)" by simp
  have h4: "combineMetadataPolicies ?throws (butlast ?sts) = Inl (Error ''unexpected'')"
    using h2 by (elim conjE)
  have "resolveCandidate ?fixes 1000 ?cfgs ?sts =
        (case applyMetadataPolicyToMetadata ?fixes
                (mergeMetadata ?fixes (orEmpty (ec_metadata ex_leaf)) (orEmpty (metadata (hd ?sts))))
                ex_policy of
           Inl failure \<Rightarrow> Continue
         | Inr resolved \<Rightarrow>
             Push \<lparr>valid = True, chain = ?sts, rawLeafEntityConfiguration = ex_leaf,
                   resolvedLeafMetadata = resolved,
                   trustAnchorEntityConfiguration = last ?cfgs\<rparr>)"
    by (rule combiner_runs_without_final_statement
      [where sts = ?sts and env = ?fixes and now = 1000 and cfgs = ?cfgs
         and mergedPolicy = ex_policy and leaf = ex_leaf and others = "[ex_anchor]",
       THEN conjunct2, THEN conjunct2, THEN mp, OF h3])
  then have c3: "resolveCandidate ?fixes 1000 ?cfgs ?sts =
      Push \<lparr>valid = True, chain = ?sts, rawLeafEntityConfiguration = ex_leaf,
           resolvedLeafMetadata =
             Some [(''openid_provider'', JObject [(''organization_name'', JString ''Org'')])],
           trustAnchorEntityConfiguration = ex_anchor\<rparr>"
    by (simp add: ex_env_def ex_apply_fixed_name_def)
  show ?thesis by (intro conjI c1 h4 c2 combined c3)
qed

text \<open>
  C5, as stated, fails: the statement naming the unrecognized critical operator \<open>regexp\<close>
  is the only statement of a chain, or the final statement of a chain of two, the combiner
  is not given that statement, and the call returns the candidate's trust chain.
\<close>

theorem critical_operator_in_final_statement_counterexample:
  "''regexp'' \<notin> set ex_operators \<and>
   metadata_policy_crit (ex_anchor_statement 5000 (Some [''regexp''])) = Some [''regexp''] \<and>
   resolveTrustChains
     (ex_env [[ex_anchor]] [ex_anchor_statement 5000 (Some [''regexp''])]
        (combineMetadataPolicies_spec ex_operators (\<lambda>statements. Inr [])) ex_apply)
     ex_options 1 =
     (Inr [\<lparr>valid = True, chain = [ex_anchor_statement 5000 (Some [''regexp''])],
            rawLeafEntityConfiguration = ex_anchor, resolvedLeafMetadata = None,
            trustAnchorEntityConfiguration = ex_anchor\<rparr>], 3) \<and>
   resolveTrustChains
     (ex_env [[ex_leaf, ex_anchor]]
        [ex_subordinate_statement 5000 None, ex_anchor_statement 5000 (Some [''regexp''])]
        (combineMetadataPolicies_spec ex_operators (\<lambda>statements. Inr [])) ex_apply)
     ex_options 1 =
     (Inr [\<lparr>valid = True,
            chain = [ex_subordinate_statement 5000 None,
                     ex_anchor_statement 5000 (Some [''regexp''])],
            rawLeafEntityConfiguration = ex_leaf,
            resolvedLeafMetadata =
              Some [(''openid_provider'', JObject [(''organization_name'', JString ''A'')]),
                    (''federation_entity'', JObject [(''contacts'', JString ''ops'')])],
            trustAnchorEntityConfiguration = ex_anchor\<rparr>], 3)"
  by (simp add: resolve_defs ex_defs)

text \<open>
  C5, amended: with the combiner of the spec, if a statement of the candidate's chain other
  than the final one names in \<open>metadata_policy_crit\<close> an operator outside the recognized
  ones, then combining the statements without the final one fails with an error that
  \<open>isMetadataPolicyCritError\<close> accepts and that is no \<open>PolicyOperatorMergeError\<close>, and the
  candidate pushes no trust chain.
\<close>

theorem unsupported_critical_operator_discards_candidate:
  assumes "combineMetadataPolicies env = combineMetadataPolicies_spec supportedOperators foldPolicies"
    and "fetchEntityStatementChain env cfgs verify w = (Inr sts, w')"
    and "i + 1 < length sts"
    and "metadata_policy_crit (sts ! i) = Some operators"
    and "operator \<in> set operators" "operator \<notin> set supportedOperators"
  shows "(\<exists>e. combineMetadataPolicies env (butlast sts) = Inl e \<and>
              isMetadataPolicyCritError e \<and> \<not> instanceof_PolicyOperatorMergeError e) \<and>
         forCandidates env verify now (cfgs # rest) trustChains w =
         forCandidates env verify now rest trustChains w'"
proof -
  have i: "i < length (butlast sts)" using assms(3) by simp
  then have "butlast sts ! i = sts ! i" by (simp add: nth_butlast)
  then have "metadata_policy_crit (butlast sts ! i) = Some operators" using assms(4) by simp
  then have failed: "combineMetadataPolicies env (butlast sts) =
      Inl (OpenIdFederationError MetadataPolicyCrit ''critical policy unsupported'')"
    using i assms(1,5,6) by (simp add: combineMetadataPolicies_spec_crit)
  have "2 \<le> length sts" using assms(3) by simp
  then have "resolveCandidate env now cfgs sts = Continue"
    using failed by (rule resolveCandidate_combine_failed)
  then have "forCandidates env verify now (cfgs # rest) trustChains w =
         forCandidates env verify now rest trustChains w'"
    using assms(2) by simp
  with failed show ?thesis by simp
qed

text \<open>C5, amended, at a concrete input: the first of two statements names \<open>regexp\<close>.\<close>

theorem unsupported_critical_operator_discards_candidate_witness:
  "metadata_policy_crit
     ([ex_subordinate_statement 5000 (Some [''regexp'']), ex_anchor_statement 5000 None] ! 0) =
     Some [''regexp''] \<and>
   ''regexp'' \<notin> set ex_operators \<and>
   (\<exists>e. combineMetadataPolicies
          (ex_env [[ex_leaf, ex_anchor]]
             [ex_subordinate_statement 5000 (Some [''regexp'']), ex_anchor_statement 5000 None]
             ex_combine ex_apply)
          (butlast [ex_subordinate_statement 5000 (Some [''regexp'']),
                    ex_anchor_statement 5000 None]) = Inl e \<and>
        isMetadataPolicyCritError e \<and> \<not> instanceof_PolicyOperatorMergeError e) \<and>
   forCandidates
     (ex_env [[ex_leaf, ex_anchor]]
        [ex_subordinate_statement 5000 (Some [''regexp'']), ex_anchor_statement 5000 None]
        ex_combine ex_apply)
     () 1000 [[ex_leaf, ex_anchor]] [] 2 = (Inr [], 3)"
proof -
  let ?sts = "[ex_subordinate_statement 5000 (Some [''regexp'']), ex_anchor_statement 5000 None]"
  let ?cfgs = "[ex_leaf, ex_anchor]"
  let ?env = "ex_env [?cfgs] ?sts ex_combine ex_apply"
  have h1: "combineMetadataPolicies ?env =
      combineMetadataPolicies_spec ex_operators (\<lambda>statements. Inr [])"
    by (simp add: ex_env_def ex_combine_def)
  have h2: "fetchEntityStatementChain ?env ?cfgs () 2 = (Inr ?sts, 3)"
    by (simp add: ex_env_def)
  have h3: "0 + 1 < length ?sts" by simp
  have h4: "metadata_policy_crit (?sts ! 0) = Some [''regexp'']"
    by (simp add: ex_defs)
  have h5: "''regexp'' \<in> set [''regexp'']" by simp
  have h6: "''regexp'' \<notin> set ex_operators" by (simp add: ex_operators_def)
  note c = unsupported_critical_operator_discards_candidate
    [OF h1 h2 h3 h4 h5 h6, where now = 1000 and rest = "[]" and trustChains = "[]"]
  have "forCandidates ?env () 1000 [?cfgs] [] 2 = forCandidates ?env () 1000 [] [] 3"
    by (rule c [THEN conjunct2])
  then have c2: "forCandidates ?env () 1000 [?cfgs] [] 2 = (Inr [], 3)" by simp
  show ?thesis by (intro conjI h4 h6 c [THEN conjunct1] c2)
qed



text \<open>
  C7: on an unexpired statement chain of two or more statements whose combination gave
  \<open>mergedPolicy\<close>, for a configuration chain \<open>leaf, ...\<close>, the applicator is run on the merge
  of the metadata of \<open>leaf\<close> with the metadata of the first of the combined statements, each
  replaced by the empty object when absent, so the merge has its two arguments in all four
  cases. The candidate's outcome is the one the applicator gives on that merged metadata:
  skipped when it throws, pushed with the resolved metadata and the last configuration
  otherwise; an applicator that agrees with the given one on that argument leads to the same
  outcome.
\<close>

theorem pre_policy_metadata_is_merge:
  assumes "2 \<le> length sts" "\<not> (\<exists>i<length sts. exp (sts ! i) < now)"
    and "combineMetadataPolicies env (butlast sts) = Inr mergedPolicy"
    and "cfgs = leaf # others"
    and "mergedLeafMetadata =
           mergeMetadata env
             (case ec_metadata leaf of None \<Rightarrow> [] | Some m \<Rightarrow> m)
             (case metadata (hd (butlast sts)) of None \<Rightarrow> [] | Some m \<Rightarrow> m)"
  shows "resolveCandidate env now cfgs sts =
           (case applyMetadataPolicyToMetadata env mergedLeafMetadata mergedPolicy of
              Inl e \<Rightarrow> Continue
            | Inr resolved \<Rightarrow>
                Push \<lparr>valid = True, chain = sts, rawLeafEntityConfiguration = leaf,
                      resolvedLeafMetadata = resolved,
                      trustAnchorEntityConfiguration = last cfgs\<rparr>) \<and>
         (applicator mergedLeafMetadata mergedPolicy =
            applyMetadataPolicyToMetadata env mergedLeafMetadata mergedPolicy \<longrightarrow>
          resolveCandidate (env\<lparr>applyMetadataPolicyToMetadata := applicator\<rparr>) now cfgs sts =
          resolveCandidate env now cfgs sts)"
proof -
  have ne: "\<not> list_ex (expired now) sts" using assms(2) by (simp add: list_ex_expired_iff)
  have hd: "hd (butlast sts) = hd sts"
    using assms(1) by (cases sts; cases "tl sts") auto
  have or1: "orEmpty (ec_metadata leaf) = (case ec_metadata leaf of None \<Rightarrow> [] | Some m \<Rightarrow> m)"
    by (cases "ec_metadata leaf") simp_all
  have or2: "orEmpty (metadata (hd sts)) = (case metadata (hd (butlast sts)) of None \<Rightarrow> [] | Some m \<Rightarrow> m)"
    unfolding hd by (cases "metadata (hd sts)") simp_all
  have m: "mergeMetadata env (orEmpty (ec_metadata leaf)) (orEmpty (metadata (hd sts))) = mergedLeafMetadata"
    unfolding or1 or2 assms(5) ..
  have general: "resolveCandidate env' now cfgs sts =
           (case applyMetadataPolicyToMetadata env' mergedLeafMetadata mergedPolicy of
              Inl e \<Rightarrow> Continue
            | Inr resolved \<Rightarrow>
                Push \<lparr>valid = True, chain = sts, rawLeafEntityConfiguration = leaf,
                      resolvedLeafMetadata = resolved,
                      trustAnchorEntityConfiguration = last cfgs\<rparr>)"
    if "combineMetadataPolicies env' (butlast sts) = Inr mergedPolicy"
       "mergeMetadata env' = mergeMetadata env" for env' :: "('a, 'b) collaborators"
    using resolveCandidate_general [OF assms(1) ne that(1), of cfgs] m that(2)
    by (simp add: assms(4) at_index_0_Cons)
  have 1: "resolveCandidate env now cfgs sts =
           (case applyMetadataPolicyToMetadata env mergedLeafMetadata mergedPolicy of
              Inl e \<Rightarrow> Continue
            | Inr resolved \<Rightarrow>
                Push \<lparr>valid = True, chain = sts, rawLeafEntityConfiguration = leaf,
                      resolvedLeafMetadata = resolved,
                      trustAnchorEntityConfiguration = last cfgs\<rparr>)"
    using assms(3) by (intro general) simp_all
  have 2: "resolveCandidate (env\<lparr>applyMetadataPolicyToMetadata := applicator\<rparr>) now cfgs sts =
          resolveCandidate env now cfgs sts"
    if "applicator mergedLeafMetadata mergedPolicy =
            applyMetadataPolicyToMetadata env mergedLeafMetadata mergedPolicy"
    using general [of "env\<lparr>applyMetadataPolicyToMetadata := applicator\<rparr>"] assms(3) that 1
    by simp
  from 1 2 show ?thesis by blast
qed

text \<open>
  C7 at concrete inputs: a leaf with metadata and a leaf without, under a superior that
  asserts metadata; and an applicator that throws on anything but the merged metadata.
\<close>

theorem pre_policy_metadata_is_merge_witness:
  "resolveCandidate
     (ex_env [[ex_leaf, ex_anchor]]
        [ex_subordinate_statement 5000 None, ex_anchor_statement 5000 None] ex_combine ex_apply)
     1000 [ex_leaf, ex_anchor]
     [ex_subordinate_statement 5000 None, ex_anchor_statement 5000 None] =
     Push \<lparr>valid = True,
           chain = [ex_subordinate_statement 5000 None, ex_anchor_statement 5000 None],
           rawLeafEntityConfiguration = ex_leaf,
           resolvedLeafMetadata =
             Some [(''openid_provider'', JObject [(''organization_name'', JString ''A'')]),
                   (''federation_entity'', JObject [(''contacts'', JString ''ops'')])],
           trustAnchorEntityConfiguration = ex_anchor\<rparr> \<and>
   resolveCandidate
     (ex_env [[ex_leaf, ex_anchor]]
        [ex_subordinate_statement 5000 None, ex_anchor_statement 5000 None] ex_combine ex_apply)
     1000 [ex_anchor, ex_anchor]
     [ex_subordinate_statement 5000 None, ex_anchor_statement 5000 None] =
     Push \<lparr>valid = True,
           chain = [ex_subordinate_statement 5000 None, ex_anchor_statement 5000 None],
           rawLeafEntityConfiguration = ex_anchor,
           resolvedLeafMetadata =
             Some [(''federation_entity'', JObject [(''contacts'', JString ''ops'')])],
           trustAnchorEntityConfiguration = ex_anchor\<rparr> \<and>
   resolveCandidate
     ((ex_env [[ex_leaf, ex_anchor]]
         [ex_subordinate_statement 5000 None, ex_anchor_statement 5000 None] ex_combine ex_apply)
      \<lparr>applyMetadataPolicyToMetadata :=
          (\<lambda>leafMetadata policy.
             if leafMetadata =
                  [(''openid_provider'', JObject [(''organization_name'', JString ''A'')]),
                   (''federation_entity'', JObject [(''contacts'', JString ''ops'')])]
             then Inr (Some leafMetadata) else Inl (Error ''other metadata''))\<rparr>)
     1000 [ex_leaf, ex_anchor]
     [ex_subordinate_statement 5000 None, ex_anchor_statement 5000 None] =
   resolveCandidate
     (ex_env [[ex_leaf, ex_anchor]]
        [ex_subordinate_statement 5000 None, ex_anchor_statement 5000 None] ex_combine ex_apply)
     1000 [ex_leaf, ex_anchor]
     [ex_subordinate_statement 5000 None, ex_anchor_statement 5000 None]"
proof -
  let ?sts = "[ex_subordinate_statement 5000 None, ex_anchor_statement 5000 None]"
  let ?env = "ex_env [[ex_leaf, ex_anchor]] ?sts ex_combine ex_apply"
  let ?op = "(''openid_provider'', JObject [(''organization_name'', JString ''A'')])"
  let ?fe = "(''federation_entity'', JObject [(''contacts'', JString ''ops'')])"
  let ?only = "\<lambda>(leafMetadata :: metadata_t) (policy :: metadata_policy_t).
      if leafMetadata = [?op, ?fe]
      then Inr (Some leafMetadata) else (Inl (Error ''other metadata'') :: error + metadata_t option)"
  have h1: "2 \<le> length ?sts" by simp
  have "\<not> list_ex (expired 1000) ?sts"
    by (simp add: expired_def ex_defs)
  then have h2: "\<not> (\<exists>i<length ?sts. exp (?sts ! i) < 1000)"
    unfolding list_ex_expired_iff .
  have h3: "combineMetadataPolicies ?env (butlast ?sts) = Inr []"
    by (simp add: ex_defs resolve_defs)
  have m1: "[?op, ?fe] =
      mergeMetadata ?env
        (case ec_metadata ex_leaf of None \<Rightarrow> [] | Some m \<Rightarrow> m)
        (case metadata (hd (butlast ?sts)) of None \<Rightarrow> [] | Some m \<Rightarrow> m)"
    by (simp add: ex_defs)
  have m2: "[?fe] =
      mergeMetadata ?env
        (case ec_metadata ex_anchor of None \<Rightarrow> [] | Some m \<Rightarrow> m)
        (case metadata (hd (butlast ?sts)) of None \<Rightarrow> [] | Some m \<Rightarrow> m)"
    by (simp add: ex_defs)
  note with_metadata = pre_policy_metadata_is_merge
    [OF h1 h2 h3 refl m1, where others = "[ex_anchor]" and applicator = ?only]
  note without_metadata = pre_policy_metadata_is_merge
    [OF h1 h2 h3 refl m2, where others = "[ex_anchor]"]
  have a: "applyMetadataPolicyToMetadata ?env [?op, ?fe] [] = Inr (Some [?op, ?fe])"
      "applyMetadataPolicyToMetadata ?env [?fe] [] = Inr (Some [?fe])"
    by (simp_all add: ex_env_def ex_apply_def)
  have c1: "resolveCandidate ?env 1000 [ex_leaf, ex_anchor] ?sts =
      Push \<lparr>valid = True, chain = ?sts, rawLeafEntityConfiguration = ex_leaf,
            resolvedLeafMetadata = Some [?op, ?fe],
            trustAnchorEntityConfiguration = ex_anchor\<rparr>"
    using with_metadata [THEN conjunct1] a(1) by simp
  have c2: "resolveCandidate ?env 1000 [ex_anchor, ex_anchor] ?sts =
      Push \<lparr>valid = True, chain = ?sts, rawLeafEntityConfiguration = ex_anchor,
            resolvedLeafMetadata = Some [?fe],
            trustAnchorEntityConfiguration = ex_anchor\<rparr>"
    using without_metadata [THEN conjunct1] a(2) by simp
  have "?only [?op, ?fe] [] = applyMetadataPolicyToMetadata ?env [?op, ?fe] []"
    using a(1) by simp
  then have c3: "resolveCandidate (?env\<lparr>applyMetadataPolicyToMetadata := ?only\<rparr>)
        1000 [ex_leaf, ex_anchor] ?sts =
      resolveCandidate ?env 1000 [ex_leaf, ex_anchor] ?sts"
    by (rule with_metadata [THEN conjunct2, THEN mp])
  show ?thesis by (intro conjI c1 c2 c3)
qed

text \<open>
  C8: the instant is read once, from the world in which the call starts, before the
  configuration chains are fetched, and the loop is given that instant for every candidate.
  Nothing reads the clock again: the loop gives the same result under any other clock, and
  so does the call under any clock that shows the same instant at its start, whatever that
  clock shows in the worlds the fetches lead to.
\<close>

theorem single_snapshot_instant:
  "resolveTrustChains env opts w0 =
     (case fetchEntityConfigurationChains env
             (entityId opts) (trustAnchorEntityIds opts) (verifyJwtCallback opts) w0 of
        (Inl e, w1) \<Rightarrow> (Inl e, w1)
      | (Inr candidates, w1) \<Rightarrow>
          forCandidates env (verifyJwtCallback opts) (currentTime env w0) candidates [] w1) \<and>
   forCandidates (env\<lparr>currentTime := clock\<rparr>) verify now candidates trustChains w =
     forCandidates env verify now candidates trustChains w \<and>
   (clock w0 = currentTime env w0 \<longrightarrow>
      resolveTrustChains (env\<lparr>currentTime := clock\<rparr>) opts w0 = resolveTrustChains env opts w0)"
  by (simp add: resolveTrustChains_def Let_def forCandidates_clock
      split: prod.splits sum.splits)

text \<open>
  C8 at a concrete input: the statement expires at 1500 and the call starts at 1000. While
  the candidate is processed the clock shows 2000, and 99000 under the other clock; the
  trust chain is returned under both.
\<close>

theorem single_snapshot_instant_witness:
  "(if (1::nat) = 1 then 1000 else 99000) =
     currentTime (ex_env [[ex_anchor]] [ex_anchor_statement 1500 None] ex_combine ex_apply) 1 \<and>
   exp (ex_anchor_statement 1500 None) <
     currentTime (ex_env [[ex_anchor]] [ex_anchor_statement 1500 None] ex_combine ex_apply) 2 \<and>
   resolveTrustChains
     ((ex_env [[ex_anchor]] [ex_anchor_statement 1500 None] ex_combine ex_apply)
      \<lparr>currentTime := (\<lambda>w. if w = 1 then 1000 else 99000)\<rparr>) ex_options 1 =
     (Inr [\<lparr>valid = True, chain = [ex_anchor_statement 1500 None],
            rawLeafEntityConfiguration = ex_anchor, resolvedLeafMetadata = None,
            trustAnchorEntityConfiguration = ex_anchor\<rparr>], 3)"
proof -
  let ?env = "ex_env [[ex_anchor]] [ex_anchor_statement 1500 None] ex_combine ex_apply"
  let ?clock = "\<lambda>w :: nat. if w = 1 then 1000 else (99000 :: int)"
  have h: "?clock 1 = currentTime ?env 1" by (simp add: ex_env_def)
  have later: "exp (ex_anchor_statement 1500 None) < currentTime ?env 2"
    by (simp add: ex_defs)
  have r: "resolveTrustChains ?env ex_options 1 =
      (Inr [\<lparr>valid = True, chain = [ex_anchor_statement 1500 None],
            rawLeafEntityConfiguration = ex_anchor, resolvedLeafMetadata = None,
            trustAnchorEntityConfiguration = ex_anchor\<rparr>], 3)"
    by (simp add: resolve_defs ex_defs)
  have "resolveTrustChains (?env\<lparr>currentTime := ?clock\<rparr>) ex_options 1 =
      resolveTrustChains ?env ex_options 1"
    by (rule single_snapshot_instant
      [where clock = ?clock and ?w0.0 = 1 and env = ?env and opts = ex_options,
       THEN conjunct2, THEN conjunct2, THEN mp, OF h])
  with r have c: "resolveTrustChains (?env\<lparr>currentTime := ?clock\<rparr>) ex_options 1 =
      (Inr [\<lparr>valid = True, chain = [ex_anchor_statement 1500 None],
            rawLeafEntityConfiguration = ex_anchor, resolvedLeafMetadata = None,
            trustAnchorEntityConfiguration = ex_anchor\<rparr>], 3)"
    by simp
  show ?thesis by (intro conjI h later c)
qed

end
